theory Spec2Isabelle
  imports Main "HOL-Library.Sublist"
begin

section \<open>Go values used by the generator\<close>

text \<open>
  A Go string is a sequence of bytes, which is what \<^typ>\<open>string\<close> is.  A Go slice
  is either \<^verbatim>\<open>nil\<close> or a (possibly empty) sequence of elements; the filter
  resolver's tests compare its results with \<^verbatim>\<open>nil\<close>, so the two are kept apart.
\<close>

datatype 'a slice = NilSlice | Slice "'a list"

fun elems :: "'a slice \<Rightarrow> 'a list" where
  "elems NilSlice = []"
| "elems (Slice xs) = xs"

definition len :: "'a slice \<Rightarrow> nat" where
  "len s = length (elems s)"

text \<open>Go's built-in \<^verbatim>\<open>append(s, x)\<close>: appending to \<^verbatim>\<open>nil\<close> allocates.\<close>

fun append :: "'a slice \<Rightarrow> 'a \<Rightarrow> 'a slice" where
  "append NilSlice x = Slice [x]"
| "append (Slice xs) x = Slice (xs @ [x])"

subsection \<open>The standard library's string functions\<close>

text \<open>
  \<^verbatim>\<open>strings.IndexByte(s, c)\<close>: the index of the first \<^verbatim>\<open>c\<close> in \<^verbatim>\<open>s\<close>, Go's
  \<^verbatim>\<open>-1\<close> being \<^term>\<open>None\<close>.
\<close>

fun IndexByte :: "string \<Rightarrow> char \<Rightarrow> nat option" where
  "IndexByte [] c = None"
| "IndexByte (x # xs) c = (if x = c then Some 0 else map_option Suc (IndexByte xs c))"

lemma IndexByte_less: "IndexByte s c = Some m \<Longrightarrow> m < length s"
  by (induction s arbitrary: m) (auto split: if_splits)

text \<open>
  \<^verbatim>\<open>strings.Split(s, sep)\<close> for a separator of one byte, which is how both filter
  functions call it (\<^verbatim>\<open>strings.Split(i, ".")\<close>): the library cuts \<^verbatim>\<open>s\<close> at each
  occurrence of the separator, from the left, and the rest of the string is the last
  segment.
\<close>

function strings_Split :: "string \<Rightarrow> char \<Rightarrow> string list" where
  "strings_Split s sep =
     (case IndexByte s sep of
        None \<Rightarrow> [s]
      | Some m \<Rightarrow> take m s # strings_Split (drop (m + 1) s) sep)"
  by pat_completeness auto
termination
  by (relation "measure (\<lambda>(s, sep). length s)") (auto dest: IndexByte_less)

declare strings_Split.simps [simp del]

text \<open>\<^verbatim>\<open>strings.Join(elems, sep)\<close>.\<close>

fun strings_Join :: "string list \<Rightarrow> string \<Rightarrow> string" where
  "strings_Join [] sep = []"
| "strings_Join [x] sep = x"
| "strings_Join (x # y # ys) sep = x @ sep @ strings_Join (y # ys) sep"

section \<open>The filter resolver\<close>

text \<open>
  \<^verbatim>\<open>TablesFromList\<close>: the loop over \<^verbatim>\<open>list\<close> with the accumulator \<^verbatim>\<open>tables\<close>,
  which starts as \<^verbatim>\<open>nil\<close>.
\<close>

fun TablesFromList_loop :: "string list \<Rightarrow> string slice \<Rightarrow> string slice" where
  "TablesFromList_loop [] tables = tables"
| "TablesFromList_loop (i # rest) tables =
     (let splits = strings_Split i (CHR ''.'') in
      if length splits = 1 then TablesFromList_loop rest (append tables (splits ! 0))
      else TablesFromList_loop rest tables)"

definition TablesFromList :: "string slice \<Rightarrow> string slice" where
  "TablesFromList list =
     (if len list = 0 then NilSlice else TablesFromList_loop (elems list) NilSlice)"

text \<open>
  \<^verbatim>\<open>ColumnsFromList\<close>: entries that do not split into two segments are skipped
  (\<^verbatim>\<open>continue\<close>); of the others, those whose first segment is the table name or
  \<^verbatim>\<open>"*"\<close> contribute their second segment.
\<close>

fun ColumnsFromList_loop :: "string list \<Rightarrow> string \<Rightarrow> string slice \<Rightarrow> string slice" where
  "ColumnsFromList_loop [] tablename columns = columns"
| "ColumnsFromList_loop (i # rest) tablename columns =
     (let splits = strings_Split i (CHR ''.'') in
      if length splits \<noteq> 2 then ColumnsFromList_loop rest tablename columns
      else if splits ! 0 = tablename \<or> splits ! 0 = ''*''
        then ColumnsFromList_loop rest tablename (append columns (splits ! 1))
        else ColumnsFromList_loop rest tablename columns)"

definition ColumnsFromList :: "string slice \<Rightarrow> string \<Rightarrow> string slice" where
  "ColumnsFromList list tablename =
     (if len list = 0 then NilSlice else ColumnsFromList_loop (elems list) tablename NilSlice)"

text \<open>\<^verbatim>\<open>DefaultInt\<close>: no arithmetic is done on the values, so Go's \<^verbatim>\<open>int\<close> is \<^typ>\<open>int\<close>.\<close>

definition DefaultInt :: "int \<Rightarrow> int \<Rightarrow> int" where
  "DefaultInt value def = (if value = 0 then def else value)"

section \<open>Errors, panics and the schema model\<close>

text \<open>
  Errors are values of \<^verbatim>\<open>github.com/pkg/errors\<close>: \<^verbatim>\<open>errors.New\<close> and
  \<^verbatim>\<open>errors.Errorf\<close> make an error from a message, \<^verbatim>\<open>errors.Wrap\<close> puts a
  message in front of an error.  Go's \<^verbatim>\<open>nil\<close> error is \<^term>\<open>None\<close>.
\<close>

datatype error = Fundamental string | WithMessage error string

definition errors_New :: "string \<Rightarrow> error" where
  "errors_New msg = Fundamental msg"

definition errors_Wrap :: "error \<Rightarrow> string \<Rightarrow> error" where
  "errors_Wrap err msg = WithMessage err msg"

text \<open>\<^verbatim>\<open>errors.Errorf\<close> for a format with one \<^verbatim>\<open>%s\<close> verb, cut at the verb.\<close>

definition errors_Errorf :: "string \<Rightarrow> string \<Rightarrow> string \<Rightarrow> error" where
  "errors_Errorf before arg after = Fundamental (before @ arg @ after)"

text \<open>The \<^verbatim>\<open>Error()\<close> method: the message an error prints.\<close>

fun Error :: "error \<Rightarrow> string" where
  "Error (Fundamental msg) = msg"
| "Error (WithMessage err msg) = msg @ '': '' @ Error err"

text \<open>
  A call either returns or panics (a method call on a \<^verbatim>\<open>nil\<close> interface value).
\<close>

datatype 'a outcome = Returns 'a | Panics

text \<open>
  Modelled from the spec: the types of package \<^verbatim>\<open>bdb\<close> (\<^verbatim>\<open>Table\<close>,
  \<^verbatim>\<open>Column\<close>, \<^verbatim>\<open>PrimaryKey\<close>, \<^verbatim>\<open>ForeignKey\<close>), whose declarations are not among the
  sources.  The spec's data model gives a table a name, an ordered sequence of columns,
  zero or one primary key (a named, ordered sequence of column names), an ordered
  sequence of foreign keys and the flag \<^verbatim>\<open>IsJoinTable\<close>.  The code reads
  \<^verbatim>\<open>Name\<close>, \<^verbatim>\<open>PKey\<close> (a pointer, \<^verbatim>\<open>nil\<close> when absent) and \<^verbatim>\<open>IsJoinTable\<close>.
\<close>

record Column =
  Name :: string
  Type :: string
  Nullable :: bool
  Default :: bool

record PrimaryKey =
  Name :: string
  Columns :: "string list"

record ForeignKey =
  Column :: string
  ForeignTable :: string
  ForeignColumn :: string
  Nullable :: bool

record Table =
  Name :: string
  Columns :: "Column list"
  PKey :: "PrimaryKey option"
  FKeys :: "ForeignKey list"
  IsJoinTable :: bool

text \<open>The zero value of \<^verbatim>\<open>bdb.Table\<close>, which a struct literal leaves in a field it omits.\<close>

definition zero_Table :: Table where
  "zero_Table = \<lparr>Table.Name = [], Table.Columns = [], PKey = None, FKeys = [], IsJoinTable = False\<rparr>"

section \<open>The orchestrator's data\<close>

text \<open>
  The fields of \<^verbatim>\<open>Config\<close> that \<^verbatim>\<open>sqlboiler.go\<close> reads (its declaration is not
  among the sources).  The functions below take the configuration itself; the pointer
  \<^verbatim>\<open>*Config\<close> is taken to be non-nil.
\<close>

record PostgresConfig =
  User :: string
  Pass :: string
  DBName :: string
  Host :: string
  Port :: int
  SSLMode :: string

record Config =
  DriverName :: string
  PkgName :: string
  OutFolder :: string
  BaseDir :: string
  ExcludeTables :: "string list"
  NoHooks :: bool
  Postgres :: PostgresConfig

text \<open>
  The drivers \<^verbatim>\<open>initDriver\<close> can build.  A \<^verbatim>\<open>bdb.Interface\<close> value is
  \<open>driver option\<close>: \<^term>\<open>None\<close> is the \<^verbatim>\<open>nil\<close> interface.
\<close>

datatype driver =
  PostgresDriver string string string string int string
| MockDriver

text \<open>
  Templates are opaque to this file: a template is known by its name, a
  \<^verbatim>\<open>templateList\<close> is a collection of templates.
\<close>

datatype template = Template string

type_synonym templateList = "template list"

record State =
  Config :: Config
  Driver :: "driver option"
  Tables :: "Table list"
  Templates :: "templateList option"
  TestTemplates :: "templateList option"
  SingletonTemplates :: "templateList option"
  SingletonTestTemplates :: "templateList option"
  TestMainTemplate :: "template option"

text \<open>
  The fields \<^verbatim>\<open>Run\<close> sets in \<^verbatim>\<open>templateData\<close>; \<^verbatim>\<open>StringFuncs\<close> is always the same
  table of functions and is left out.
\<close>

record templateData =
  Tables :: "Table list"
  Table :: Table
  DriverName :: string
  UseLastInsertID :: bool
  PkgName :: string
  NoHooks :: bool

record Package =
  Dir :: string

subsection \<open>The collaborators\<close>

text \<open>
  Every call that leaves \<^verbatim>\<open>sqlboiler.go\<close> for the driver, the file system, the Go
  build context or the template layer is recorded as an event, in the order of the
  calls.  What such a call returns is not decided here: it is a parameter (the record
  \<open>env\<close>), and may depend on everything that happened before (the events so far).
\<close>

datatype event =
  EvOpen driver
| EvClose driver
| EvTables "driver option" "string list"
| EvMkdirAll string
| EvImport string
| EvGetwd
| EvLoadTemplates string
| EvLoadTemplate string string
| EvSingletonOutput templateData
| EvTestMainOutput templateData
| EvSingletonTestOutput templateData
| EvOutput templateData
| EvTestOutput templateData

record env =
  drv_Open :: "event list \<Rightarrow> driver \<Rightarrow> error option"
  drv_UseLastInsertID :: "driver \<Rightarrow> bool"
  bdb_Tables :: "event list \<Rightarrow> driver option \<Rightarrow> string list \<Rightarrow> Table list \<times> error option"
  os_MkdirAll :: "event list \<Rightarrow> string \<Rightarrow> error option"
  build_Import :: "event list \<Rightarrow> string \<Rightarrow> Package option"
  os_Getwd :: "event list \<Rightarrow> string \<times> error option"
  filepath_Join :: "string \<Rightarrow> string \<Rightarrow> string"
  loadTemplates :: "event list \<Rightarrow> string \<Rightarrow> templateList option \<times> error option"
  loadTemplate :: "event list \<Rightarrow> string \<Rightarrow> string \<Rightarrow> template option \<times> error option"
  generateSingletonOutput :: "event list \<Rightarrow> State \<Rightarrow> templateData \<Rightarrow> error option"
  generateTestMainOutput :: "event list \<Rightarrow> State \<Rightarrow> templateData \<Rightarrow> error option"
  generateSingletonTestOutput :: "event list \<Rightarrow> State \<Rightarrow> templateData \<Rightarrow> error option"
  generateOutput :: "event list \<Rightarrow> State \<Rightarrow> templateData \<Rightarrow> error option"
  generateTestOutput :: "event list \<Rightarrow> State \<Rightarrow> templateData \<Rightarrow> error option"

definition templatesDirectory :: string where
  "templatesDirectory = ''templates''"

definition templatesSingletonDirectory :: string where
  "templatesSingletonDirectory = ''templates/singleton''"

definition templatesTestDirectory :: string where
  "templatesTestDirectory = ''templates_test''"

definition templatesSingletonTestDirectory :: string where
  "templatesSingletonTestDirectory = ''templates_test/singleton''"

definition templatesTestMainDirectory :: string where
  "templatesTestMainDirectory = ''templates_test/main_test''"

definition basePackage :: string where
  "basePackage = ''github.com/vattle/sqlboiler''"

section \<open>The orchestrator\<close>

text \<open>
  \<^verbatim>\<open>checkPKeys\<close>: the loop collects in \<^verbatim>\<open>missingPkey\<close> (at first \<^verbatim>\<open>nil\<close>) the name
  of each table whose \<^verbatim>\<open>PKey\<close> is \<^verbatim>\<open>nil\<close>; the error, if any, is made after the loop.
\<close>

fun checkPKeys_loop :: "Table list \<Rightarrow> string slice \<Rightarrow> string slice" where
  "checkPKeys_loop [] missingPkey = missingPkey"
| "checkPKeys_loop (t # rest) missingPkey =
     (if PKey t = None then checkPKeys_loop rest (append missingPkey (Table.Name t))
      else checkPKeys_loop rest missingPkey)"

definition checkPKeys :: "Table list \<Rightarrow> error option" where
  "checkPKeys tables =
     (let missingPkey = checkPKeys_loop tables NilSlice in
      if len missingPkey \<noteq> 0
      then Some (errors_Errorf ''primary key missing in tables (''
                   (strings_Join (elems missingPkey) '', '') '')'')
      else None)"

text \<open>
  \<^verbatim>\<open>initDriver\<close>: the \<^verbatim>\<open>switch\<close> sets the driver for the two known names and does
  nothing for any other; the test of \<^verbatim>\<open>s.Driver\<close> comes after it.  The method changes
  the state it is called on, so the changed state is returned with the error.
\<close>

definition initDriver :: "State \<Rightarrow> string \<Rightarrow> State \<times> error option" where
  "initDriver s driverName =
     (let s1 =
        (if driverName = ''postgres'' then
           s\<lparr>Driver := Some (PostgresDriver
                 (User (Postgres (Config s)))
                 (Pass (Postgres (Config s)))
                 (DBName (Postgres (Config s)))
                 (Host (Postgres (Config s)))
                 (Port (Postgres (Config s)))
                 (SSLMode (Postgres (Config s))))\<rparr>
         else if driverName = ''mock'' then s\<lparr>Driver := Some MockDriver\<rparr>
         else s)
      in if Driver s1 = None
         then (s1, Some (errors_New ''An invalid driver name was provided''))
         else (s1, None))"

text \<open>
  \<^verbatim>\<open>initTables\<close>: \<^verbatim>\<open>s.Tables\<close> is assigned whatever \<^verbatim>\<open>bdb.Tables\<close> returns, also
  beside an error.
\<close>

definition initTables ::
  "env \<Rightarrow> State \<Rightarrow> string list \<Rightarrow> event list \<Rightarrow> (State \<times> error option) \<times> event list" where
  "initTables e s exclude w =
     (case bdb_Tables e w (Driver s) exclude of
        (tables, err) \<Rightarrow>
          (let w1 = w @ [EvTables (Driver s) exclude];
               s1 = s\<lparr>State.Tables := tables\<rparr>
           in case err of
                Some err1 \<Rightarrow> ((s1, Some (errors_Wrap err1 ''unable to fetch table data'')), w1)
              | None \<Rightarrow>
                  if length (State.Tables s1) = 0
                  then ((s1, Some (errors_New ''no tables found in database'')), w1)
                  else (case checkPKeys (State.Tables s1) of
                          Some err2 \<Rightarrow> ((s1, Some err2), w1)
                        | None \<Rightarrow> ((s1, None), w1))))"

definition initOutFolder :: "env \<Rightarrow> State \<Rightarrow> event list \<Rightarrow> error option \<times> event list" where
  "initOutFolder e s w =
     (os_MkdirAll e w (OutFolder (Config s)), w @ [EvMkdirAll (OutFolder (Config s))])"

text \<open>
  \<^verbatim>\<open>getBasePath\<close>: the error of \<^verbatim>\<open>build.Default.Import\<close> is dropped
  (\<^verbatim>\<open>p, _ :=\<close>); the package it returns may be \<^verbatim>\<open>nil\<close>.
\<close>

definition getBasePath ::
  "env \<Rightarrow> string \<Rightarrow> event list \<Rightarrow> (string \<times> error option) \<times> event list" where
  "getBasePath e baseDirConfig w =
     (if length baseDirConfig > 0 then ((baseDirConfig, None), w)
      else
        (let p = build_Import e w basePackage;
             w1 = w @ [EvImport basePackage]
         in case p of
              Some pkg \<Rightarrow>
                if length (Dir pkg) > 0 then ((Dir pkg, None), w1)
                else (os_Getwd e w1, w1 @ [EvGetwd])
            | None \<Rightarrow> (os_Getwd e w1, w1 @ [EvGetwd])))"

text \<open>
  \<^verbatim>\<open>initTemplates\<close>: each field is assigned what the loader returns before the error
  is tested, and the first error ends the function.
\<close>

definition initTemplates ::
  "env \<Rightarrow> State \<Rightarrow> event list \<Rightarrow> (State \<times> error option) \<times> event list" where
  "initTemplates e s w =
     (case getBasePath e (BaseDir (Config s)) w of
        ((basePath, Some err), w0) \<Rightarrow> ((s, Some err), w0)
      | ((basePath, None), w0) \<Rightarrow>
     (let d1 = filepath_Join e basePath templatesDirectory in
      case loadTemplates e w0 d1 of (t1, err1) \<Rightarrow>
      let s1 = s\<lparr>Templates := t1\<rparr>; w1 = w0 @ [EvLoadTemplates d1] in
      if err1 \<noteq> None then ((s1, err1), w1) else
     (let d2 = filepath_Join e basePath templatesSingletonDirectory in
      case loadTemplates e w1 d2 of (t2, err2) \<Rightarrow>
      let s2 = s1\<lparr>SingletonTemplates := t2\<rparr>; w2 = w1 @ [EvLoadTemplates d2] in
      if err2 \<noteq> None then ((s2, err2), w2) else
     (let d3 = filepath_Join e basePath templatesTestDirectory in
      case loadTemplates e w2 d3 of (t3, err3) \<Rightarrow>
      let s3 = s2\<lparr>TestTemplates := t3\<rparr>; w3 = w2 @ [EvLoadTemplates d3] in
      if err3 \<noteq> None then ((s3, err3), w3) else
     (let d4 = filepath_Join e basePath templatesSingletonTestDirectory in
      case loadTemplates e w3 d4 of (t4, err4) \<Rightarrow>
      let s4 = s3\<lparr>SingletonTestTemplates := t4\<rparr>; w4 = w3 @ [EvLoadTemplates d4] in
      if err4 \<noteq> None then ((s4, err4), w4) else
     (let d5 = filepath_Join e basePath templatesTestMainDirectory;
          f5 = Config.DriverName (Config s) @ ''_main.tpl'' in
      case loadTemplate e w4 d5 f5 of (t5, err5) \<Rightarrow>
      let s5 = s4\<lparr>TestMainTemplate := t5\<rparr>; w5 = w4 @ [EvLoadTemplate d5 f5] in
      if err5 \<noteq> None then ((s5, err5), w5) else ((s5, None), w5)))))))"

text \<open>
  \<^verbatim>\<open>New\<close>: the state starts as \<^verbatim>\<open>&State{Config: config}\<close>, every other field
  at its zero value; then the stages in the order of the source.  Every failing stage returns
  \<^verbatim>\<open>nil\<close> for the state, beside the error.  The call \<^verbatim>\<open>s.Driver.Open()\<close> would
  panic on a \<^verbatim>\<open>nil\<close> driver.
\<close>

definition new_State :: "Config \<Rightarrow> State" where
  "new_State config =
     \<lparr>Config = config, Driver = None, State.Tables = [], Templates = None,
      TestTemplates = None, SingletonTemplates = None,
      SingletonTestTemplates = None, TestMainTemplate = None\<rparr>"

definition New ::
  "env \<Rightarrow> Config \<Rightarrow> event list \<Rightarrow> (State option \<times> error option) outcome \<times> event list" where
  "New e config w =
     (let s = new_State config
      in case initDriver s (Config.DriverName config) of
           (s1, Some err) \<Rightarrow> (Returns (None, Some err), w)
         | (s1, None) \<Rightarrow>
        (case Driver s1 of
           None \<Rightarrow> (Panics, w)
         | Some d \<Rightarrow>
        (case drv_Open e w d of
           Some err \<Rightarrow>
             (Returns (None, Some (errors_Wrap err ''unable to connect to the database'')),
              w @ [EvOpen d])
         | None \<Rightarrow>
        (case initTables e s1 (ExcludeTables config) (w @ [EvOpen d]) of
           ((s2, Some err), w2) \<Rightarrow>
             (Returns (None, Some (errors_Wrap err ''unable to initialize tables'')), w2)
         | ((s2, None), w2) \<Rightarrow>
        (case initOutFolder e s2 w2 of
           (Some err, w3) \<Rightarrow>
             (Returns (None, Some (errors_Wrap err ''unable to initialize the output folder'')), w3)
         | (None, w3) \<Rightarrow>
        (case initTemplates e s2 w3 of
           ((s4, Some err), w4) \<Rightarrow>
             (Returns (None, Some (errors_Wrap err ''unable to initialize templates'')), w4)
         | ((s4, None), w4) \<Rightarrow> (Returns (Some s4, None), w4)))))))"

text \<open>\<^verbatim>\<open>Cleanup\<close>: \<^verbatim>\<open>Close\<close> returns nothing, and \<^verbatim>\<open>Cleanup\<close> returns \<^verbatim>\<open>nil\<close> after it.\<close>

definition Cleanup :: "State \<Rightarrow> event list \<Rightarrow> error option outcome \<times> event list" where
  "Cleanup s w =
     (case Driver s of
        None \<Rightarrow> (Panics, w)
      | Some d \<Rightarrow> (Returns None, w @ [EvClose d]))"

text \<open>
  \<^verbatim>\<open>Run\<close>, in three parts: the singleton output, the block under
  \<^verbatim>\<open>if includeTests\<close>, and the loop over \<^verbatim>\<open>s.Tables\<close>.
\<close>

definition tableData :: "env \<Rightarrow> State \<Rightarrow> driver \<Rightarrow> Table \<Rightarrow> templateData" where
  "tableData e s d table =
     \<lparr>templateData.Tables = State.Tables s,
      Table = table,
      templateData.DriverName = Config.DriverName (Config s),
      UseLastInsertID = drv_UseLastInsertID e d,
      templateData.PkgName = Config.PkgName (Config s),
      templateData.NoHooks = Config.NoHooks (Config s)\<rparr>"

fun Run_tables ::
  "env \<Rightarrow> State \<Rightarrow> driver \<Rightarrow> bool \<Rightarrow> Table list \<Rightarrow> event list \<Rightarrow> error option \<times> event list" where
  "Run_tables e s d includeTests [] w = (None, w)"
| "Run_tables e s d includeTests (table # rest) w =
     (if IsJoinTable table then Run_tables e s d includeTests rest w
      else
        (let data = tableData e s d table in
         case generateOutput e w s data of
           Some err \<Rightarrow> (Some (errors_Wrap err ''unable to generate output''), w @ [EvOutput data])
         | None \<Rightarrow>
             (let w1 = w @ [EvOutput data] in
              if includeTests then
                (case generateTestOutput e w1 s data of
                   Some err \<Rightarrow>
                     (Some (errors_Wrap err ''unable to generate test output''),
                      w1 @ [EvTestOutput data])
                 | None \<Rightarrow> Run_tables e s d includeTests rest (w1 @ [EvTestOutput data]))
              else Run_tables e s d includeTests rest w1)))"

definition Run_tests ::
  "env \<Rightarrow> State \<Rightarrow> templateData \<Rightarrow> bool \<Rightarrow> event list \<Rightarrow> error option \<times> event list" where
  "Run_tests e s singletonData includeTests w =
     (if includeTests then
        (case generateTestMainOutput e w s singletonData of
           Some err \<Rightarrow>
             (Some (errors_Wrap err ''unable to generate TestMain output''),
              w @ [EvTestMainOutput singletonData])
         | None \<Rightarrow>
             (let w1 = w @ [EvTestMainOutput singletonData] in
              case generateSingletonTestOutput e w1 s singletonData of
                Some err \<Rightarrow>
                  (Some (errors_Wrap err ''unable to generate singleton test template output''),
                   w1 @ [EvSingletonTestOutput singletonData])
              | None \<Rightarrow> (None, w1 @ [EvSingletonTestOutput singletonData])))
      else (None, w))"

definition Run :: "env \<Rightarrow> State \<Rightarrow> bool \<Rightarrow> event list \<Rightarrow> error option outcome \<times> event list" where
  "Run e s includeTests w =
     (case Driver s of
        None \<Rightarrow> (Panics, w)
      | Some d \<Rightarrow>
          (let singletonData = tableData e s d zero_Table in
           case generateSingletonOutput e w s singletonData of
             Some err \<Rightarrow>
               (Returns (Some (errors_Wrap err ''singleton template output'')),
                w @ [EvSingletonOutput singletonData])
           | None \<Rightarrow>
               (case Run_tests e s singletonData includeTests (w @ [EvSingletonOutput singletonData]) of
                  (Some err, w1) \<Rightarrow> (Returns (Some err), w1)
                | (None, w1) \<Rightarrow>
                    (case Run_tables e s d includeTests (State.Tables s) w1 of
                       (r, w2) \<Rightarrow> (Returns r, w2)))))"

text \<open>
  What \<^verbatim>\<open>Run\<close> is to render when nothing fails, in the words of the specification:
  the singleton templates once; with tests, the test harness and the singleton test
  templates once each; then, for each table that is not a join table, its templates
  and, with tests, its test templates.
\<close>

definition Run_plan_tables ::
  "env \<Rightarrow> State \<Rightarrow> driver \<Rightarrow> bool \<Rightarrow> Table list \<Rightarrow> event list" where
  "Run_plan_tables e s d includeTests tables =
     concat (map (\<lambda>t. EvOutput (tableData e s d t) #
                        (if includeTests then [EvTestOutput (tableData e s d t)] else []))
               (filter (\<lambda>t. \<not> IsJoinTable t) tables))"

definition Run_plan_tests :: "templateData \<Rightarrow> bool \<Rightarrow> event list" where
  "Run_plan_tests singletonData includeTests =
     (if includeTests
      then [EvTestMainOutput singletonData, EvSingletonTestOutput singletonData]
      else [])"

definition Run_plan :: "env \<Rightarrow> State \<Rightarrow> driver \<Rightarrow> bool \<Rightarrow> event list" where
  "Run_plan e s d includeTests =
     [EvSingletonOutput (tableData e s d zero_Table)] @
     Run_plan_tests (tableData e s d zero_Table) includeTests @
     Run_plan_tables e s d includeTests (State.Tables s)"

text \<open>Whether an event is the driver's \<^verbatim>\<open>Close\<close>.\<close>

fun is_Close :: "event \<Rightarrow> bool" where
  "is_Close (EvClose d) = True"
| "is_Close ev = False"

subsection \<open>A concrete run\<close>

text \<open>
  A configuration for the mock driver, a schema of two entity tables and a join table,
  and collaborators that all succeed; the variants below make one of them fail.
\<close>

definition example_Config :: Config where
  "example_Config =
     \<lparr>Config.DriverName = ''mock'', Config.PkgName = ''models'', OutFolder = ''out'',
      BaseDir = ''/base'', ExcludeTables = [], Config.NoHooks = False,
      Postgres = \<lparr>User = [], Pass = [], DBName = [], Host = [], Port = 0, SSLMode = []\<rparr>\<rparr>"

definition example_Tables :: "Table list" where
  "example_Tables =
     [\<lparr>Table.Name = ''users'', Table.Columns = [],
        PKey = Some \<lparr>PrimaryKey.Name = ''users_pkey'', PrimaryKey.Columns = [''id'']\<rparr>,
        FKeys = [], IsJoinTable = False\<rparr>,
      \<lparr>Table.Name = ''user_tags'', Table.Columns = [],
        PKey = Some \<lparr>PrimaryKey.Name = ''user_tags_pkey'',
                      PrimaryKey.Columns = [''user_id'', ''tag_id'']\<rparr>,
        FKeys = [], IsJoinTable = True\<rparr>,
      \<lparr>Table.Name = ''tags'', Table.Columns = [],
        PKey = Some \<lparr>PrimaryKey.Name = ''tags_pkey'', PrimaryKey.Columns = [''id'']\<rparr>,
        FKeys = [], IsJoinTable = False\<rparr>]"

definition example_env :: env where
  "example_env =
     \<lparr>drv_Open = (\<lambda>w d. None),
      drv_UseLastInsertID = (\<lambda>d. False),
      bdb_Tables = (\<lambda>w d exclude. (example_Tables, None)),
      os_MkdirAll = (\<lambda>w path. None),
      build_Import = (\<lambda>w path. Some \<lparr>Dir = ''/go/src/github.com/vattle/sqlboiler''\<rparr>),
      os_Getwd = (\<lambda>w. (''/home/user/project'', None)),
      filepath_Join = (\<lambda>a b. a @ ''/'' @ b),
      loadTemplates = (\<lambda>w dir. (Some [Template dir], None)),
      loadTemplate = (\<lambda>w dir name. (Some (Template name), None)),
      generateSingletonOutput = (\<lambda>w s dat. None),
      generateTestMainOutput = (\<lambda>w s dat. None),
      generateSingletonTestOutput = (\<lambda>w s dat. None),
      generateOutput = (\<lambda>w s dat. None),
      generateTestOutput = (\<lambda>w s dat. None)\<rparr>"

definition example_State :: State where
  "example_State = (new_State example_Config)\<lparr>Driver := Some MockDriver, State.Tables := example_Tables\<rparr>"

text \<open>
  The specification's reading of a filter entry for \<^verbatim>\<open>ColumnsFromList\<close>: the column
  segment of an entry with exactly two segments whose table segment is the table name
  or the wildcard.
\<close>

definition column_segment :: "string \<Rightarrow> string \<Rightarrow> string option" where
  "column_segment tablename s =
     (case strings_Split s (CHR ''.'') of
        [t, c] \<Rightarrow> if t = tablename \<or> t = ''*'' then Some c else None
      | _ \<Rightarrow> None)"

section \<open>Properties of the string functions\<close>

lemma strings_Split_Nil: "strings_Split [] c = [[]]"
  by (simp add: strings_Split.simps)

lemma strings_Split_Cons:
  "strings_Split (x # xs) c =
     (if x = c then [] # strings_Split xs c
      else (case strings_Split xs c of h # t \<Rightarrow> (x # h) # t | [] \<Rightarrow> [[x]]))"
proof (cases "x = c")
  case True
  then show ?thesis
    by (subst strings_Split.simps) simp
next
  case False
  show ?thesis
  proof (cases "IndexByte xs c")
    case None
    with False show ?thesis
      by (subst strings_Split.simps, subst (2) strings_Split.simps) simp
  next
    case (Some m)
    with False show ?thesis
      by (subst strings_Split.simps, subst (2) strings_Split.simps) simp
  qed
qed

lemma strings_Split_not_Nil: "strings_Split s c \<noteq> []"
  by (cases "IndexByte s c") (simp_all add: strings_Split.simps [of s])

lemma strings_Split_length: "length (strings_Split s c) = Suc (count_list s c)"
  by (induction s) (auto simp: strings_Split_Nil strings_Split_Cons split: list.splits)

lemma strings_Split_no_sep: "c \<notin> set s \<Longrightarrow> strings_Split s c = [s]"
  by (induction s) (auto simp: strings_Split_Nil strings_Split_Cons)

lemma strings_Split_one: "length (strings_Split s c) = 1 \<longleftrightarrow> c \<notin> set s"
  by (simp add: strings_Split_length count_list_0_iff)

lemma strings_Split_segments: "t \<in> set (strings_Split s c) \<Longrightarrow> c \<notin> set t"
  by (induction s arbitrary: t)
     (auto simp: strings_Split_Nil strings_Split_Cons split: if_splits list.splits)

lemma strings_Split_Join: "strings_Join (strings_Split s c) [c] = s"
proof (induction s)
  case Nil
  show ?case by (simp add: strings_Split_Nil)
next
  case (Cons x xs)
  show ?case
  proof (cases "strings_Split xs c")
    case Nil
    then show ?thesis by (simp add: strings_Split_not_Nil)
  next
    case (Cons h t)
    with Cons.IH show ?thesis
      by (cases t) (auto simp: strings_Split_Cons)
  qed
qed

lemma strings_Split_two:
  "strings_Split s c = [t, col] \<longleftrightarrow> s = t @ c # col \<and> c \<notin> set t \<and> c \<notin> set col"
proof (induction s arbitrary: t)
  case Nil
  show ?case by (simp add: strings_Split_Nil)
next
  case (Cons x xs)
  show ?case
  proof (cases "x = c")
    case True
    have "strings_Split xs c = [col] \<longleftrightarrow> xs = col \<and> c \<notin> set col"
      using strings_Split_no_sep [of c xs] strings_Split_one [of xs c] by auto
    with True show ?thesis
      by (auto simp: strings_Split_Cons Cons_eq_append_conv)
  next
    case False
    show ?thesis
    proof (cases t)
      case Nil
      with False show ?thesis
        by (auto simp: strings_Split_Cons split: list.splits)
    next
      case (Cons y t')
      obtain h r where hr: "strings_Split xs c = h # r"
        using strings_Split_not_Nil [of xs c] by (cases "strings_Split xs c") auto
      have "strings_Split (x # xs) c = [t, col] \<longleftrightarrow> x = y \<and> strings_Split xs c = [t', col]"
        using False Cons hr by (auto simp: strings_Split_Cons)
      also have "\<dots> \<longleftrightarrow> x = y \<and> xs = t' @ c # col \<and> c \<notin> set t' \<and> c \<notin> set col"
        using Cons.IH [of t'] by simp
      also have "\<dots> \<longleftrightarrow> x # xs = t @ c # col \<and> c \<notin> set t \<and> c \<notin> set col"
        using False Cons by auto
      finally show ?thesis .
    qed
  qed
qed

section \<open>The filter resolver's results\<close>

lemma TablesFromList_loop_elems:
  "elems (TablesFromList_loop xs acc) =
     elems acc @ filter (\<lambda>s. length (strings_Split s (CHR ''.'')) = 1) xs"
proof (induction xs arbitrary: acc)
  case Nil
  show ?case by simp
next
  case (Cons i rest)
  have one: "length (strings_Split i (CHR ''.'')) = 1 \<Longrightarrow> strings_Split i (CHR ''.'') ! 0 = i"
    using strings_Split_no_sep [of "CHR ''.''" i] strings_Split_one [of i "CHR ''.''"] by simp
  show ?case
    by (cases acc) (simp_all add: Cons.IH Let_def one)
qed

lemma TablesFromList_loop_nil:
  "TablesFromList_loop xs acc = NilSlice \<longleftrightarrow>
     acc = NilSlice \<and> filter (\<lambda>s. length (strings_Split s (CHR ''.'')) = 1) xs = []"
proof (induction xs arbitrary: acc)
  case Nil
  show ?case by simp
next
  case (Cons i rest)
  show ?case
    by (cases acc) (simp_all add: Cons.IH Let_def)
qed

lemma ColumnsFromList_loop_elems:
  "elems (ColumnsFromList_loop xs tn acc) =
     elems acc @
     map (\<lambda>s. strings_Split s (CHR ''.'') ! 1)
       (filter (\<lambda>s. length (strings_Split s (CHR ''.'')) = 2 \<and>
                  (strings_Split s (CHR ''.'') ! 0 = tn \<or> strings_Split s (CHR ''.'') ! 0 = ''*''))
          xs)"
proof (induction xs arbitrary: acc)
  case Nil
  show ?case by simp
next
  case (Cons i rest)
  show ?case
    by (cases acc) (simp_all add: Cons.IH Let_def)
qed

lemma ColumnsFromList_loop_nil:
  "ColumnsFromList_loop xs tn acc = NilSlice \<longleftrightarrow>
     acc = NilSlice \<and>
     filter (\<lambda>s. length (strings_Split s (CHR ''.'')) = 2 \<and>
                (strings_Split s (CHR ''.'') ! 0 = tn \<or> strings_Split s (CHR ''.'') ! 0 = ''*''))
       xs = []"
proof (induction xs arbitrary: acc)
  case Nil
  show ?case by simp
next
  case (Cons i rest)
  show ?case
    by (cases acc) (simp_all add: Cons.IH Let_def)
qed

lemma strings_Split_two_nth:
  "length (strings_Split s c) = 2 \<and> strings_Split s c ! 0 = t \<and> strings_Split s c ! 1 = col
     \<longleftrightarrow> s = t @ c # col \<and> c \<notin> set t \<and> c \<notin> set col"
proof -
  have "length (strings_Split s c) = 2 \<and> strings_Split s c ! 0 = t \<and> strings_Split s c ! 1 = col
          \<longleftrightarrow> strings_Split s c = [t, col]"
    by (cases "strings_Split s c" rule: list.exhaust; cases "tl (strings_Split s c)")
       (auto simp: length_Suc_conv)
  then show ?thesis
    by (simp add: strings_Split_two)
qed

lemma column_segment_iff:
  "column_segment tn s = Some c \<longleftrightarrow>
     (\<exists>t. s = t @ ''.'' @ c \<and> CHR ''.'' \<notin> set t \<and> CHR ''.'' \<notin> set c \<and> (t = tn \<or> t = ''*''))"
proof -
  have "column_segment tn s = Some c \<longleftrightarrow>
          (\<exists>t. strings_Split s (CHR ''.'') = [t, c] \<and> (t = tn \<or> t = ''*''))"
    by (auto simp: column_segment_def split: list.splits if_splits)
  then show ?thesis
    by (simp add: strings_Split_two)
qed

lemma column_segment_nth:
  "column_segment tn s =
     (if length (strings_Split s (CHR ''.'')) = 2 \<and>
         (strings_Split s (CHR ''.'') ! 0 = tn \<or> strings_Split s (CHR ''.'') ! 0 = ''*'')
      then Some (strings_Split s (CHR ''.'') ! 1) else None)"
  by (auto simp: column_segment_def split: list.splits)

lemma map_filter_column_segment:
  "List.map_filter (column_segment tn) xs =
     map (\<lambda>s. strings_Split s (CHR ''.'') ! 1)
       (filter (\<lambda>s. length (strings_Split s (CHR ''.'')) = 2 \<and>
                  (strings_Split s (CHR ''.'') ! 0 = tn \<or> strings_Split s (CHR ''.'') ! 0 = ''*''))
          xs)"
  by (induction xs) (simp_all add: List.map_filter_simps column_segment_nth)

text \<open>
  Claim C1.  For every list of specifiers, \<^verbatim>\<open>TablesFromList\<close> returns, in the order
  of the input, exactly the entries without a \<^verbatim>\<open>'.'\<close>, which are the entries that
  split into one segment; the result is \<^verbatim>\<open>nil\<close> exactly when no entry is kept, so a
  \<^verbatim>\<open>nil\<close> or empty input gives \<^verbatim>\<open>nil\<close>; and
  \<^verbatim>\<open>TablesFromList(["a.b","b","c.d"])\<close> is \<^verbatim>\<open>["b"]\<close>.
\<close>

theorem TablesFromList_whole_tables:
  "elems (TablesFromList list) = filter (\<lambda>s. CHR ''.'' \<notin> set s) (elems list)
   \<and> elems (TablesFromList list) =
       filter (\<lambda>s. length (strings_Split s (CHR ''.'')) = 1) (elems list)
   \<and> (TablesFromList list = NilSlice \<longleftrightarrow> (\<forall>s \<in> set (elems list). CHR ''.'' \<in> set s))
   \<and> TablesFromList NilSlice = NilSlice
   \<and> TablesFromList (Slice []) = NilSlice
   \<and> TablesFromList (Slice [''a.b'', ''b'', ''c.d'']) = Slice [''b'']"
proof -
  have segs: "elems (TablesFromList list) =
      filter (\<lambda>s. length (strings_Split s (CHR ''.'')) = 1) (elems list)"
    by (simp add: TablesFromList_def len_def TablesFromList_loop_elems)
  then have dots: "elems (TablesFromList list) = filter (\<lambda>s. CHR ''.'' \<notin> set s) (elems list)"
    by (simp add: strings_Split_one [simplified])
  have nil: "TablesFromList list = NilSlice \<longleftrightarrow> (\<forall>s \<in> set (elems list). CHR ''.'' \<in> set s)"
    by (auto simp: TablesFromList_def len_def TablesFromList_loop_nil
        strings_Split_one [simplified] filter_empty_conv)
  have ex: "TablesFromList (Slice [''a.b'', ''b'', ''c.d'']) = Slice [''b'']"
    by (simp add: TablesFromList_def len_def strings_Split_Cons strings_Split_Nil)
  show ?thesis
    using segs dots nil ex by (simp add: TablesFromList_def len_def)
qed

text \<open>
  Claim C1 at a concrete list: the entries with a separator are dropped, the empty
  entry (one empty segment) is kept, and a list of column entries only gives \<^verbatim>\<open>nil\<close>.
\<close>

theorem TablesFromList_whole_tables_witness:
  "elems (TablesFromList (Slice [''users.id'', ''users'', '''', ''a.b.c'', ''posts''])) =
     [''users'', '''', ''posts'']
   \<and> TablesFromList (Slice [''users.id'', ''a.b.c'']) = NilSlice"
  using TablesFromList_whole_tables [of "Slice [''users.id'', ''users'', '''', ''a.b.c'', ''posts'']"]
    TablesFromList_whole_tables [of "Slice [''users.id'', ''a.b.c'']"]
  by simp

text \<open>
  Claim C2.  For every list of specifiers and every table name, \<^verbatim>\<open>ColumnsFromList\<close>
  returns, in the order of the input, the column segment of every entry \<^verbatim>\<open>t.c\<close> (no
  further separator in \<^verbatim>\<open>t\<close> or \<^verbatim>\<open>c\<close>) whose \<^verbatim>\<open>t\<close> is the table name or
  \<^verbatim>\<open>"*"\<close>, compared as strings; all other entries contribute nothing; the result is
  \<^verbatim>\<open>nil\<close> exactly when nothing is kept, so a \<^verbatim>\<open>nil\<close> input gives \<^verbatim>\<open>nil\<close>; and
  \<^verbatim>\<open>ColumnsFromList(["*.b","b","c.d"], "c")\<close> is \<^verbatim>\<open>["b","d"]\<close>.
\<close>

theorem ColumnsFromList_columns:
  "elems (ColumnsFromList list tablename) =
     List.map_filter (column_segment tablename) (elems list)
   \<and> (\<forall>s c. column_segment tablename s = Some c \<longleftrightarrow>
        (\<exists>t. s = t @ ''.'' @ c \<and> CHR ''.'' \<notin> set t \<and> CHR ''.'' \<notin> set c \<and>
             (t = tablename \<or> t = ''*'')))
   \<and> (ColumnsFromList list tablename = NilSlice \<longleftrightarrow>
        List.map_filter (column_segment tablename) (elems list) = [])
   \<and> ColumnsFromList NilSlice tablename = NilSlice
   \<and> ColumnsFromList (Slice [''*.b'', ''b'', ''c.d'']) ''c'' = Slice [''b'', ''d'']"
proof -
  have el: "elems (ColumnsFromList list tablename) =
      List.map_filter (column_segment tablename) (elems list)"
    by (simp add: ColumnsFromList_def len_def ColumnsFromList_loop_elems
        map_filter_column_segment)
  have nil: "ColumnsFromList list tablename = NilSlice \<longleftrightarrow>
      List.map_filter (column_segment tablename) (elems list) = []"
    by (auto simp: ColumnsFromList_def len_def ColumnsFromList_loop_nil
        map_filter_column_segment List.map_filter_simps)
  have ex: "ColumnsFromList (Slice [''*.b'', ''b'', ''c.d'']) ''c'' = Slice [''b'', ''d'']"
    by (simp add: ColumnsFromList_def len_def strings_Split_Cons strings_Split_Nil)
  show ?thesis
    using el nil ex column_segment_iff by (simp add: ColumnsFromList_def len_def)
qed

text \<open>
  Claim C2 at a concrete list: the table segment \<^verbatim>\<open>C\<close> does not match the table
  \<^verbatim>\<open>c\<close>, and entries of one or three segments are skipped.
\<close>

theorem ColumnsFromList_columns_witness:
  "elems (ColumnsFromList (Slice [''c.d'', ''C.x'', ''c.d.e'', ''*.b'', ''c'', ''a.b'', ''c.a'']) ''c'') =
     [''d'', ''b'', ''a'']"
  using ColumnsFromList_columns
    [of "Slice [''c.d'', ''C.x'', ''c.d.e'', ''*.b'', ''c'', ''a.b'', ''c.a'']" "''c''"]
  by (simp add: List.map_filter_simps column_segment_def strings_Split_Cons strings_Split_Nil)

text \<open>
  Claim C7 as stated fails: a negative configured value is not replaced by the default.
\<close>

theorem DefaultInt_negative_counterexample:
  "(-1::int) \<le> 0 \<and> DefaultInt (-1) 10 = -1 \<and> DefaultInt (-1) 10 \<noteq> 10"
  by (simp add: DefaultInt_def)

text \<open>
  Claim C7, amended.  \<^verbatim>\<open>DefaultInt\<close> falls back to the default for the value zero
  only; every other value, positive or negative, is returned as it is.
\<close>

theorem DefaultInt_zero_only:
  "(value = 0 \<longrightarrow> DefaultInt value def = def)
   \<and> (value \<noteq> 0 \<longrightarrow> DefaultInt value def = value)
   \<and> (0 < value \<longrightarrow> DefaultInt value def = value)
   \<and> (value < 0 \<longrightarrow> DefaultInt value def = value)"
  by (simp add: DefaultInt_def)

text \<open>
  Claim C7, amended, at the values 0, 4 and -3 with the default 10.
\<close>

theorem DefaultInt_zero_only_witness:
  "DefaultInt 0 10 = 10 \<and> DefaultInt 4 10 = 4 \<and> DefaultInt (-3) 10 = -3"
  using DefaultInt_zero_only [of 0 10] DefaultInt_zero_only [of 4 10]
    DefaultInt_zero_only [of "-3" 10]
  by simp

section \<open>Validation of primary keys\<close>

lemma checkPKeys_loop_elems:
  "elems (checkPKeys_loop ts acc) =
     elems acc @ map Table.Name (filter (\<lambda>t. PKey t = None) ts)"
proof (induction ts arbitrary: acc)
  case Nil
  show ?case by simp
next
  case (Cons t rest)
  show ?case
    by (cases acc) (simp_all add: Cons.IH)
qed

lemma strings_Join_sublist: "x \<in> set xs \<Longrightarrow> sublist x (strings_Join xs sep)"
proof (induction xs sep rule: strings_Join.induct)
  case (1 sep)
  then show ?case by simp
next
  case (2 y sep)
  then show ?case by simp
next
  case (3 y z zs sep)
  show ?case
  proof (cases "x = y")
    case True
    then show ?thesis by simp
  next
    case False
    with 3 have "sublist x (strings_Join (z # zs) sep)" by simp
    then obtain ps ss where "strings_Join (z # zs) sep = ps @ x @ ss"
      by (auto simp: sublist_def)
    then have "strings_Join (y # z # zs) sep = (y @ sep @ ps) @ x @ ss"
      by simp
    then show ?thesis
      unfolding sublist_def by blast
  qed
qed

lemma sublist_between: "sublist x m \<Longrightarrow> sublist x (a @ m @ b)"
proof -
  assume "sublist x m"
  then obtain ps ss where "m = ps @ x @ ss"
    by (auto simp: sublist_def)
  then have "a @ m @ b = (a @ ps) @ x @ (ss @ b)"
    by simp
  then show ?thesis
    unfolding sublist_def by blast
qed

text \<open>
  Claim C3.  \<^verbatim>\<open>checkPKeys\<close> returns no error exactly when every table of the list has a
  primary key; otherwise it returns one error whose message lists, between the
  parentheses and joined by \<^verbatim>\<open>", "\<close>, the names of all tables without a primary key,
  in the order of the list, and of no other table.  So the name of every such table
  stands in the message, wherever in the list the table is.
\<close>

theorem checkPKeys_aggregates:
  "checkPKeys tables =
     (if \<forall>t \<in> set tables. PKey t \<noteq> None then None
      else Some (Fundamental (''primary key missing in tables ('' @
                   strings_Join (map Table.Name (filter (\<lambda>t. PKey t = None) tables)) '', '' @
                   '')'')))
   \<and> (\<forall>t \<in> set tables. PKey t = None \<longrightarrow>
        (\<exists>err. checkPKeys tables = Some err \<and> sublist (Table.Name t) (Error err)))"
proof -
  let ?missing = "map Table.Name (filter (\<lambda>t. PKey t = None) tables)"
  have el: "elems (checkPKeys_loop tables NilSlice) = ?missing"
    by (simp add: checkPKeys_loop_elems)
  have none: "?missing = [] \<longleftrightarrow> (\<forall>t \<in> set tables. PKey t \<noteq> None)"
    by (auto simp: filter_empty_conv)
  have val: "checkPKeys tables =
     (if \<forall>t \<in> set tables. PKey t \<noteq> None then None
      else Some (Fundamental (''primary key missing in tables ('' @
                   strings_Join ?missing '', '' @ '')'')))"
    using none by (simp add: checkPKeys_def len_def el errors_Errorf_def Let_def)
  have named: "\<exists>err. checkPKeys tables = Some err \<and> sublist (Table.Name t) (Error err)"
    if "t \<in> set tables" and "PKey t = None" for t
  proof -
    from that have "Table.Name t \<in> set ?missing" by auto
    then have "sublist (Table.Name t) (strings_Join ?missing '', '')"
      by (rule strings_Join_sublist)
    then have "sublist (Table.Name t)
        (''primary key missing in tables ('' @ strings_Join ?missing '', '' @ '')'')"
      by (rule sublist_between)
    moreover from that have "\<not> (\<forall>t \<in> set tables. PKey t \<noteq> None)" by auto
    ultimately show ?thesis
      using val by simp
  qed
  show ?thesis
    using val named by blast
qed

text \<open>
  Claim C3 at a schema where \<^verbatim>\<open>T1\<close> and \<^verbatim>\<open>T3\<close> lack a primary key and \<^verbatim>\<open>T2\<close>
  has one, and at a schema of \<^verbatim>\<open>T2\<close> alone.
\<close>

theorem checkPKeys_aggregates_witness:
  "checkPKeys
     [\<lparr>Table.Name = ''T1'', Table.Columns = [], PKey = None, FKeys = [], IsJoinTable = False\<rparr>,
      \<lparr>Table.Name = ''T2'', Table.Columns = [],
        PKey = Some \<lparr>PrimaryKey.Name = ''T2_pkey'', PrimaryKey.Columns = [''id'']\<rparr>,
        FKeys = [], IsJoinTable = False\<rparr>,
      \<lparr>Table.Name = ''T3'', Table.Columns = [], PKey = None, FKeys = [], IsJoinTable = True\<rparr>]
   = Some (Fundamental ''primary key missing in tables (T1, T3)'')
   \<and> checkPKeys
     [\<lparr>Table.Name = ''T2'', Table.Columns = [],
        PKey = Some \<lparr>PrimaryKey.Name = ''T2_pkey'', PrimaryKey.Columns = [''id'']\<rparr>,
        FKeys = [], IsJoinTable = False\<rparr>] = None"
  using checkPKeys_aggregates
     [of "[\<lparr>Table.Name = ''T1'', Table.Columns = [], PKey = None, FKeys = [], IsJoinTable = False\<rparr>,
      \<lparr>Table.Name = ''T2'', Table.Columns = [],
        PKey = Some \<lparr>PrimaryKey.Name = ''T2_pkey'', PrimaryKey.Columns = [''id'']\<rparr>,
        FKeys = [], IsJoinTable = False\<rparr>,
      \<lparr>Table.Name = ''T3'', Table.Columns = [], PKey = None, FKeys = [], IsJoinTable = True\<rparr>]"]
    checkPKeys_aggregates
     [of "[\<lparr>Table.Name = ''T2'', Table.Columns = [],
        PKey = Some \<lparr>PrimaryKey.Name = ''T2_pkey'', PrimaryKey.Columns = [''id'']\<rparr>,
        FKeys = [], IsJoinTable = False\<rparr>]"]
  by simp

section \<open>The stages of construction\<close>

lemma initDriver_cases:
  "initDriver (new_State config) driverName =
     (if driverName = ''postgres'' then
        ((new_State config)\<lparr>Driver := Some (PostgresDriver
            (User (Postgres config)) (Pass (Postgres config)) (DBName (Postgres config))
            (Host (Postgres config)) (Port (Postgres config)) (SSLMode (Postgres config)))\<rparr>, None)
      else if driverName = ''mock'' then ((new_State config)\<lparr>Driver := Some MockDriver\<rparr>, None)
      else (new_State config, Some (errors_New ''An invalid driver name was provided'')))"
  by (simp add: initDriver_def new_State_def)

lemma initDriver_unknown:
  "driverName \<noteq> ''postgres'' \<Longrightarrow> driverName \<noteq> ''mock'' \<Longrightarrow> Driver s = None \<Longrightarrow>
     initDriver s driverName = (s, Some (errors_New ''An invalid driver name was provided''))"
  by (simp add: initDriver_def)

lemma initDriver_known:
  "driverName = ''postgres'' \<or> driverName = ''mock'' \<Longrightarrow>
     \<exists>d. initDriver s driverName = (s\<lparr>Driver := Some d\<rparr>, None)"
  by (auto simp: initDriver_def)

lemma initDriver_ok_Driver:
  "initDriver (new_State config) driverName = (s1, None) \<Longrightarrow>
     \<exists>d. s1 = (new_State config)\<lparr>Driver := Some d\<rparr>"
  by (auto simp: initDriver_cases split: if_splits)

lemma initTables_result:
  "initTables e s exclude w = ((s', r), w') \<Longrightarrow>
     w' = w @ [EvTables (Driver s) exclude] \<and> Driver s' = Driver s \<and>
     (r = None \<longrightarrow> State.Tables s' \<noteq> [] \<and> checkPKeys (State.Tables s') = None)"
  by (auto simp: initTables_def Let_def split: prod.splits option.splits if_splits)

lemma initTables_empty:
  "bdb_Tables e w (Driver s) exclude = ([], None) \<Longrightarrow>
     initTables e s exclude w =
       ((s\<lparr>State.Tables := []\<rparr>, Some (errors_New ''no tables found in database'')),
        w @ [EvTables (Driver s) exclude])"
  by (simp add: initTables_def)

lemma initOutFolder_trace:
  "initOutFolder e s w = (r, w') \<Longrightarrow> w' = w @ [EvMkdirAll (OutFolder (Config s))]"
  by (auto simp: initOutFolder_def)

lemma getBasePath_trace:
  "\<exists>tr. snd (getBasePath e b w) = w @ tr \<and> (\<forall>ev \<in> set tr. \<not> is_Close ev)"
  by (auto simp: getBasePath_def Let_def split: option.splits)

lemma initTemplates_trace:
  "\<exists>tr. snd (initTemplates e s w) = w @ tr \<and> (\<forall>ev \<in> set tr. \<not> is_Close ev)"
proof -
  obtain tr0 where tr0: "snd (getBasePath e (BaseDir (Config s)) w) = w @ tr0"
      "\<forall>ev \<in> set tr0. \<not> is_Close ev"
    using getBasePath_trace by blast
  obtain bp r0 w0 where g: "getBasePath e (BaseDir (Config s)) w = ((bp, r0), w0)"
    by (metis surj_pair)
  with tr0 have w0: "w0 = w @ tr0" by simp
  show ?thesis
    using tr0(2)
    by (auto simp: initTemplates_def g w0 Let_def split: prod.splits option.splits if_splits)
qed

lemma initTemplates_frame:
  "Driver (fst (fst (initTemplates e s w))) = Driver s \<and>
   State.Tables (fst (fst (initTemplates e s w))) = State.Tables s"
  by (auto simp: initTemplates_def Let_def split: prod.splits option.splits if_splits)


lemma New_shape:
  "\<exists>st err tr. New e config w = (Returns (st, err), w @ tr) \<and>
      (err \<noteq> None \<longleftrightarrow> st = None) \<and> (\<forall>ev \<in> set tr. \<not> is_Close ev) \<and>
      (\<forall>s. st = Some s \<longrightarrow> Driver s \<noteq> None \<and> State.Tables s \<noteq> [] \<and> Config s = config)"
proof (cases "initDriver (new_State config) (Config.DriverName config)")
  case (Pair s1 r1)
  show ?thesis
  proof (cases r1)
    case (Some err)
    with Pair show ?thesis by (simp add: New_def)
  next
    case None
    with Pair obtain d where s1: "s1 = (new_State config)\<lparr>Driver := Some d\<rparr>"
      using initDriver_ok_Driver by blast
    show ?thesis
    proof (cases "drv_Open e w d")
      case (Some err)
      with Pair None s1 show ?thesis by (simp add: New_def)
    next
      case open_ok: None
      obtain s2 r2 w2 where it: "initTables e s1 (ExcludeTables config) (w @ [EvOpen d]) = ((s2, r2), w2)"
        by (metis surj_pair)
      from initTables_result [OF it] s1
      have w2: "w2 = w @ [EvOpen d, EvTables (Some d) (ExcludeTables config)]"
        and d2: "Driver s2 = Some d"
        and t2: "r2 = None \<longrightarrow> State.Tables s2 \<noteq> []"
        by simp_all
      have c2: "Config s2 = config"
        using it s1 by (auto simp: initTables_def new_State_def Let_def
            split: prod.splits option.splits if_splits)
      show ?thesis
      proof (cases r2)
        case (Some err)
        with Pair None s1 open_ok it w2 show ?thesis by (simp add: New_def)
      next
        case tables_ok: None
        obtain r3 w3 where io: "initOutFolder e s2 w2 = (r3, w3)"
          by (metis surj_pair)
        from initOutFolder_trace [OF io] w2
        have w3: "w3 = w @ [EvOpen d, EvTables (Some d) (ExcludeTables config),
            EvMkdirAll (OutFolder (Config s2))]"
          by simp
        show ?thesis
        proof (cases r3)
          case (Some err)
          with Pair None s1 open_ok it tables_ok io w3 show ?thesis by (simp add: New_def)
        next
          case out_ok: None
          obtain s4 r4 w4 where tp: "initTemplates e s2 w3 = ((s4, r4), w4)"
            by (metis surj_pair)
          obtain tr4 where tr4: "w4 = w3 @ tr4" "\<forall>ev \<in> set tr4. \<not> is_Close ev"
            using initTemplates_trace [of e s2 w3] tp by auto
          have f4: "Driver s4 = Some d" "State.Tables s4 = State.Tables s2"
            using initTemplates_frame [of e s2 w3] tp d2 by simp_all
          have c4: "Config s4 = config"
            using tp c2 by (auto simp: initTemplates_def Let_def
                split: prod.splits option.splits if_splits)
          show ?thesis
          proof (cases r4)
            case (Some err)
            with Pair None s1 open_ok it tables_ok io out_ok tp tr4 w3 show ?thesis
              by (simp add: New_def)
          next
            case tpl_ok: None
            with Pair \<open>r1 = None\<close> s1 open_ok it tables_ok io out_ok tp tr4 w3 f4 t2 c4
            show ?thesis
              by (simp add: New_def)
          qed
        qed
      qed
    qed
  qed
qed

section \<open>Construction and release\<close>

text \<open>
  Claim C6.  On a state with no driver (as \<^verbatim>\<open>New\<close> makes it), \<^verbatim>\<open>initDriver\<close> with a
  name other than \<^verbatim>\<open>"postgres"\<close> and \<^verbatim>\<open>"mock"\<close> returns the invalid-driver error and
  leaves the state as it was, without a driver; with one of the two names it sets a driver
  and returns no error.  \<^verbatim>\<open>New\<close> with such a name returns that error with a \<^verbatim>\<open>nil\<close>
  state and has called nothing: no event is recorded, so \<^verbatim>\<open>Open\<close> was never called.
\<close>

theorem initDriver_invalid_name:
  "(driverName \<noteq> ''postgres'' \<and> driverName \<noteq> ''mock'' \<and> Driver s = None \<longrightarrow>
      initDriver s driverName = (s, Some (errors_New ''An invalid driver name was provided'')))
   \<and> (driverName = ''postgres'' \<or> driverName = ''mock'' \<longrightarrow>
        (\<exists>d. initDriver s driverName = (s\<lparr>Driver := Some d\<rparr>, None)))
   \<and> (Config.DriverName config \<noteq> ''postgres'' \<and> Config.DriverName config \<noteq> ''mock'' \<longrightarrow>
        New e config w =
          (Returns (None, Some (errors_New ''An invalid driver name was provided'')), w))"
proof -
  have "New e config w =
          (Returns (None, Some (errors_New ''An invalid driver name was provided'')), w)"
    if "Config.DriverName config \<noteq> ''postgres''" and "Config.DriverName config \<noteq> ''mock''"
    using that by (simp add: New_def initDriver_cases)
  then show ?thesis
    using initDriver_unknown [of driverName s] initDriver_known [of driverName s] by blast
qed

text \<open>
  Claim C6 at the driver name \<^verbatim>\<open>"mysql"\<close>, and at the known name \<^verbatim>\<open>"mock"\<close>.
\<close>

theorem initDriver_invalid_name_witness:
  "initDriver (new_State (example_Config\<lparr>Config.DriverName := ''mysql''\<rparr>)) ''mysql'' =
     (new_State (example_Config\<lparr>Config.DriverName := ''mysql''\<rparr>),
      Some (Fundamental ''An invalid driver name was provided''))
   \<and> Driver (fst (initDriver (new_State (example_Config\<lparr>Config.DriverName := ''mysql''\<rparr>)) ''mysql'')) = None
   \<and> New example_env (example_Config\<lparr>Config.DriverName := ''mysql''\<rparr>) [] =
       (Returns (None, Some (Fundamental ''An invalid driver name was provided'')), [])
   \<and> (\<exists>d. initDriver (new_State example_Config) ''mock'' =
            ((new_State example_Config)\<lparr>Driver := Some d\<rparr>, None))"
  using initDriver_invalid_name
      [of "''mysql''" "new_State (example_Config\<lparr>Config.DriverName := ''mysql''\<rparr>)"
          "example_Config\<lparr>Config.DriverName := ''mysql''\<rparr>" example_env "[]"]
    initDriver_invalid_name [of "''mock''" "new_State example_Config" example_Config example_env "[]"]
  by (simp add: new_State_def example_Config_def errors_New_def)

text \<open>
  Claim C4.  When \<^verbatim>\<open>bdb.Tables\<close> returns no table and no error, \<^verbatim>\<open>initTables\<close> fails
  with the error \<^verbatim>\<open>no tables found in database\<close>; \<^verbatim>\<open>initTables\<close> never succeeds with
  an empty table list, and neither does \<^verbatim>\<open>New\<close>; and in \<^verbatim>\<open>New\<close>, after a driver was
  selected and opened, the empty result ends construction with that error (wrapped),
  the last call being the one to \<^verbatim>\<open>bdb.Tables\<close>: neither the output folder nor the
  templates are touched.
\<close>

theorem initTables_no_tables:
  "(bdb_Tables e w (Driver s) exclude = ([], None) \<longrightarrow>
      initTables e s exclude w =
        ((s\<lparr>State.Tables := []\<rparr>, Some (errors_New ''no tables found in database'')),
         w @ [EvTables (Driver s) exclude]))
   \<and> (\<forall>s' w'. initTables e s exclude w = ((s', None), w') \<longrightarrow> State.Tables s' \<noteq> [])
   \<and> (\<forall>st w'. New e config w = (Returns (Some st, None), w') \<longrightarrow> State.Tables st \<noteq> [])
   \<and> (\<forall>d. initDriver (new_State config) (Config.DriverName config) =
             ((new_State config)\<lparr>Driver := Some d\<rparr>, None) \<and>
           drv_Open e w d = None \<and>
           bdb_Tables e (w @ [EvOpen d]) (Some d) (ExcludeTables config) = ([], None) \<longrightarrow>
        New e config w =
          (Returns (None, Some (errors_Wrap (errors_New ''no tables found in database'')
                                   ''unable to initialize tables'')),
           w @ [EvOpen d, EvTables (Some d) (ExcludeTables config)]))"
proof (intro conjI allI impI)
  assume "bdb_Tables e w (Driver s) exclude = ([], None)"
  then show "initTables e s exclude w =
        ((s\<lparr>State.Tables := []\<rparr>, Some (errors_New ''no tables found in database'')),
         w @ [EvTables (Driver s) exclude])"
    by (rule initTables_empty)
next
  fix s' w'
  assume "initTables e s exclude w = ((s', None), w')"
  from initTables_result [OF this] show "State.Tables s' \<noteq> []"
    by simp
next
  fix st w'
  assume n: "New e config w = (Returns (Some st, None), w')"
  obtain st0 err0 tr0 where sh: "New e config w = (Returns (st0, err0), w @ tr0)"
      "\<forall>s. st0 = Some s \<longrightarrow> Driver s \<noteq> None \<and> State.Tables s \<noteq> [] \<and> Config s = config"
    using New_shape [of e config w] by blast
  from n sh(1) have "st0 = Some st" by simp
  with sh(2) show "State.Tables st \<noteq> []"
    by simp
next
  fix d
  assume "initDriver (new_State config) (Config.DriverName config) =
             ((new_State config)\<lparr>Driver := Some d\<rparr>, None) \<and>
           drv_Open e w d = None \<and>
           bdb_Tables e (w @ [EvOpen d]) (Some d) (ExcludeTables config) = ([], None)"
  then show "New e config w =
          (Returns (None, Some (errors_Wrap (errors_New ''no tables found in database'')
                                   ''unable to initialize tables'')),
           w @ [EvOpen d, EvTables (Some d) (ExcludeTables config)])"
    by (simp add: New_def initTables_def)
qed

text \<open>
  Claim C4 with the mock driver and a database without tables.
\<close>

theorem initTables_no_tables_witness:
  "New (example_env\<lparr>bdb_Tables := (\<lambda>w d exclude. ([], None))\<rparr>) example_Config [] =
     (Returns (None, Some (WithMessage (Fundamental ''no tables found in database'')
                              ''unable to initialize tables'')),
      [EvOpen MockDriver, EvTables (Some MockDriver) []])
   \<and> initTables (example_env\<lparr>bdb_Tables := (\<lambda>w d exclude. ([], None))\<rparr>)
        ((new_State example_Config)\<lparr>Driver := Some MockDriver\<rparr>) [] [EvOpen MockDriver] =
      (((new_State example_Config)\<lparr>Driver := Some MockDriver, State.Tables := []\<rparr>,
        Some (Fundamental ''no tables found in database'')),
       [EvOpen MockDriver, EvTables (Some MockDriver) []])"
  using initTables_no_tables
    [of "example_env\<lparr>bdb_Tables := (\<lambda>w d exclude. ([], None))\<rparr>" "[EvOpen MockDriver]"
        "(new_State example_Config)\<lparr>Driver := Some MockDriver\<rparr>" "[]" example_Config]
    initTables_no_tables
    [of "example_env\<lparr>bdb_Tables := (\<lambda>w d exclude. ([], None))\<rparr>" "[]"
        "(new_State example_Config)\<lparr>Driver := Some MockDriver\<rparr>" "[]" example_Config]
  by (simp add: example_env_def example_Config_def initDriver_cases errors_New_def errors_Wrap_def)


text \<open>
  Claim C8 as stated fails: when \<^verbatim>\<open>Open\<close> fails, after the driver was selected (here
  the postgres driver), the caller gets \<^verbatim>\<open>nil\<close> for the state, not a state that
  carries the driver.
\<close>

theorem New_failure_counterexample:
  "New (example_env\<lparr>drv_Open := (\<lambda>w d. Some (Fundamental ''connection refused''))\<rparr>)
     (example_Config\<lparr>Config.DriverName := ''postgres''\<rparr>) [] =
     (Returns (None, Some (WithMessage (Fundamental ''connection refused'')
                              ''unable to connect to the database'')),
      [EvOpen (PostgresDriver [] [] [] [] 0 [])])"
  by (simp add: New_def example_env_def example_Config_def initDriver_cases errors_Wrap_def)

text \<open>
  Claim C8, amended.  Whichever stage of \<^verbatim>\<open>New\<close> fails, \<^verbatim>\<open>New\<close> returns \<^verbatim>\<open>nil\<close> for
  the state, beside that stage's error: the error of driver selection as it is, and the
  error of \<^verbatim>\<open>Open\<close>, of \<^verbatim>\<open>initTables\<close>, of \<^verbatim>\<open>initOutFolder\<close> and of
  \<^verbatim>\<open>initTemplates\<close> wrapped with the stage's message; each stage runs only when all
  stages before it succeeded, and the state is returned only when all five did.  So
  \<^verbatim>\<open>New\<close> always returns, with a \<^verbatim>\<open>nil\<close> state exactly when it returns an error (the
  caller then holds no state to call \<^verbatim>\<open>Cleanup\<close> on), and \<^verbatim>\<open>New\<close> itself never closes
  the driver.
\<close>

theorem New_failure_returns_nil:
  "(\<forall>s1 err. initDriver (new_State config) (Config.DriverName config) = (s1, Some err) \<longrightarrow>
      New e config w = (Returns (None, Some err), w))
   \<and> (\<forall>s1 d. initDriver (new_State config) (Config.DriverName config) = (s1, None) \<and>
         Driver s1 = Some d \<longrightarrow>
      (\<forall>err. drv_Open e w d = Some err \<longrightarrow>
         New e config w =
           (Returns (None, Some (errors_Wrap err ''unable to connect to the database'')),
            w @ [EvOpen d]))
      \<and> (drv_Open e w d = None \<longrightarrow>
         (\<forall>s2 err w2.
            initTables e s1 (ExcludeTables config) (w @ [EvOpen d]) = ((s2, Some err), w2) \<longrightarrow>
            New e config w =
              (Returns (None, Some (errors_Wrap err ''unable to initialize tables'')), w2))
         \<and> (\<forall>s2 w2.
            initTables e s1 (ExcludeTables config) (w @ [EvOpen d]) = ((s2, None), w2) \<longrightarrow>
            (\<forall>err w3. initOutFolder e s2 w2 = (Some err, w3) \<longrightarrow>
               New e config w =
                 (Returns (None, Some (errors_Wrap err ''unable to initialize the output folder'')),
                  w3))
            \<and> (\<forall>w3. initOutFolder e s2 w2 = (None, w3) \<longrightarrow>
               (\<forall>s4 err w4. initTemplates e s2 w3 = ((s4, Some err), w4) \<longrightarrow>
                  New e config w =
                    (Returns (None, Some (errors_Wrap err ''unable to initialize templates'')), w4))
               \<and> (\<forall>s4 w4. initTemplates e s2 w3 = ((s4, None), w4) \<longrightarrow>
                  New e config w = (Returns (Some s4, None), w4))))))
   \<and> (\<exists>st err tr. New e config w = (Returns (st, err), w @ tr) \<and>
        (err \<noteq> None \<longleftrightarrow> st = None) \<and> (\<forall>ev \<in> set tr. \<not> is_Close ev))"
proof (intro conjI allI impI; (elim conjE)?)
  fix s1 err
  assume "initDriver (new_State config) (Config.DriverName config) = (s1, Some err)"
  then show "New e config w = (Returns (None, Some err), w)"
    by (simp add: New_def)
next
  fix s1 d err
  assume "initDriver (new_State config) (Config.DriverName config) = (s1, None)"
    and "Driver s1 = Some d" and "drv_Open e w d = Some err"
  then show "New e config w =
      (Returns (None, Some (errors_Wrap err ''unable to connect to the database'')), w @ [EvOpen d])"
    by (simp add: New_def)
next
  fix s1 d s2 err w2
  assume "initDriver (new_State config) (Config.DriverName config) = (s1, None)"
    and "Driver s1 = Some d" and "drv_Open e w d = None"
    and "initTables e s1 (ExcludeTables config) (w @ [EvOpen d]) = ((s2, Some err), w2)"
  then show "New e config w =
      (Returns (None, Some (errors_Wrap err ''unable to initialize tables'')), w2)"
    by (simp add: New_def)
next
  fix s1 d s2 w2 err w3
  assume "initDriver (new_State config) (Config.DriverName config) = (s1, None)"
    and "Driver s1 = Some d" and "drv_Open e w d = None"
    and "initTables e s1 (ExcludeTables config) (w @ [EvOpen d]) = ((s2, None), w2)"
    and "initOutFolder e s2 w2 = (Some err, w3)"
  then show "New e config w =
      (Returns (None, Some (errors_Wrap err ''unable to initialize the output folder'')), w3)"
    by (simp add: New_def)
next
  fix s1 d s2 w2 w3 s4 err w4
  assume "initDriver (new_State config) (Config.DriverName config) = (s1, None)"
    and "Driver s1 = Some d" and "drv_Open e w d = None"
    and "initTables e s1 (ExcludeTables config) (w @ [EvOpen d]) = ((s2, None), w2)"
    and "initOutFolder e s2 w2 = (None, w3)"
    and "initTemplates e s2 w3 = ((s4, Some err), w4)"
  then show "New e config w =
      (Returns (None, Some (errors_Wrap err ''unable to initialize templates'')), w4)"
    by (simp add: New_def)
next
  fix s1 d s2 w2 w3 s4 w4
  assume "initDriver (new_State config) (Config.DriverName config) = (s1, None)"
    and "Driver s1 = Some d" and "drv_Open e w d = None"
    and "initTables e s1 (ExcludeTables config) (w @ [EvOpen d]) = ((s2, None), w2)"
    and "initOutFolder e s2 w2 = (None, w3)"
    and "initTemplates e s2 w3 = ((s4, None), w4)"
  then show "New e config w = (Returns (Some s4, None), w4)"
    by (simp add: New_def)
next
  from New_shape [of e config w]
  obtain st err tr where sh: "New e config w = (Returns (st, err), w @ tr) \<and>
      (err \<noteq> None \<longleftrightarrow> st = None) \<and> (\<forall>ev \<in> set tr. \<not> is_Close ev) \<and>
      (\<forall>s. st = Some s \<longrightarrow> Driver s \<noteq> None \<and> State.Tables s \<noteq> [] \<and> Config s = config)"
    by (elim exE)
  show "\<exists>st err tr. New e config w = (Returns (st, err), w @ tr) \<and>
        (err \<noteq> None \<longleftrightarrow> st = None) \<and> (\<forall>ev \<in> set tr. \<not> is_Close ev)"
  proof (intro exI conjI)
    show "New e config w = (Returns (st, err), w @ tr)" using sh by (rule conjunct1)
    show "(err \<noteq> None) = (st = None)" using sh by simp
    show "\<forall>ev \<in> set tr. \<not> is_Close ev" using sh by simp
  qed
qed


text \<open>
  Claim C8, amended, with the mock driver, where in turn \<^verbatim>\<open>Open\<close>, the introspection,
  the creation of the output folder and the loading of the templates fail.
\<close>

theorem New_failure_returns_nil_witness:
  "New (example_env\<lparr>drv_Open := (\<lambda>w d. Some (Fundamental ''connection refused''))\<rparr>)
     example_Config [] =
     (Returns (None, Some (WithMessage (Fundamental ''connection refused'')
                              ''unable to connect to the database'')),
      [EvOpen MockDriver])
   \<and> New (example_env\<lparr>bdb_Tables := (\<lambda>w d exclude. ([], Some (Fundamental ''query failed'')))\<rparr>)
     example_Config [] =
     (Returns (None, Some (WithMessage
                 (WithMessage (Fundamental ''query failed'') ''unable to fetch table data'')
                 ''unable to initialize tables'')),
      [EvOpen MockDriver, EvTables (Some MockDriver) []])
   \<and> New (example_env\<lparr>os_MkdirAll := (\<lambda>w path. Some (Fundamental ''permission denied''))\<rparr>)
     example_Config [] =
     (Returns (None, Some (WithMessage (Fundamental ''permission denied'')
                              ''unable to initialize the output folder'')),
      [EvOpen MockDriver, EvTables (Some MockDriver) [], EvMkdirAll ''out''])
   \<and> New (example_env\<lparr>loadTemplates := (\<lambda>w dir. (None, Some (Fundamental ''parse error'')))\<rparr>)
     example_Config [] =
     (Returns (None, Some (WithMessage (Fundamental ''parse error'')
                              ''unable to initialize templates'')),
      [EvOpen MockDriver, EvTables (Some MockDriver) [], EvMkdirAll ''out'',
       EvLoadTemplates ''/base/templates''])"
  using
    New_failure_returns_nil
      [of example_Config
          "example_env\<lparr>drv_Open := (\<lambda>w d. Some (Fundamental ''connection refused''))\<rparr>" "[]"]
    New_failure_returns_nil
      [of example_Config
          "example_env\<lparr>bdb_Tables := (\<lambda>w d exclude. ([], Some (Fundamental ''query failed'')))\<rparr>"
          "[]"]
    New_failure_returns_nil
      [of example_Config
          "example_env\<lparr>os_MkdirAll := (\<lambda>w path. Some (Fundamental ''permission denied''))\<rparr>"
          "[]"]
    New_failure_returns_nil
      [of example_Config
          "example_env\<lparr>loadTemplates := (\<lambda>w dir. (None, Some (Fundamental ''parse error'')))\<rparr>"
          "[]"]
  by (simp add: example_env_def example_Config_def initDriver_def new_State_def errors_Wrap_def
      initTables_def initOutFolder_def initTemplates_def getBasePath_def templatesDirectory_def
      example_Tables_def checkPKeys_def len_def)

text \<open>
  Claim C9 as stated fails: with no base directory configured and the base package
  found by the Go build context, the base path is the package's directory, not the
  working directory (which is not even asked for).
\<close>

theorem getBasePath_package_counterexample:
  "getBasePath example_env [] [] =
     ((''/go/src/github.com/vattle/sqlboiler'', None), [EvImport ''github.com/vattle/sqlboiler''])
   \<and> os_Getwd example_env [EvImport ''github.com/vattle/sqlboiler''] = (''/home/user/project'', None)"
  by (simp add: getBasePath_def example_env_def basePackage_def)

text \<open>
  Claim C9, amended.  A non-empty configured base directory is used as it is.  With
  none configured, the directory of the base package is used when the Go build context
  finds the package with a non-empty directory; only otherwise the result is that of
  \<^verbatim>\<open>os.Getwd\<close>, its error included.
\<close>

theorem getBasePath_resolution:
  "(baseDirConfig \<noteq> [] \<longrightarrow> getBasePath e baseDirConfig w = ((baseDirConfig, None), w))
   \<and> (\<forall>pkg. build_Import e w basePackage = Some pkg \<and> Dir pkg \<noteq> [] \<longrightarrow>
        getBasePath e [] w = ((Dir pkg, None), w @ [EvImport basePackage]))
   \<and> (build_Import e w basePackage = None \<or>
       (\<exists>pkg. build_Import e w basePackage = Some pkg \<and> Dir pkg = []) \<longrightarrow>
        getBasePath e [] w =
          (os_Getwd e (w @ [EvImport basePackage]), w @ [EvImport basePackage, EvGetwd]))"
  by (auto simp: getBasePath_def Let_def)

text \<open>
  Claim C9, amended, in its three cases (the last one twice: no package, and a package
  without a directory).
\<close>

theorem getBasePath_resolution_witness:
  "getBasePath example_env ''/base'' [] = ((''/base'', None), [])
   \<and> getBasePath example_env [] [] =
       ((''/go/src/github.com/vattle/sqlboiler'', None), [EvImport basePackage])
   \<and> getBasePath (example_env\<lparr>build_Import := (\<lambda>w path. None)\<rparr>) [] [] =
       ((''/home/user/project'', None), [EvImport basePackage, EvGetwd])
   \<and> getBasePath (example_env\<lparr>build_Import := (\<lambda>w path. Some \<lparr>Dir = []\<rparr>)\<rparr>) [] [] =
       ((''/home/user/project'', None), [EvImport basePackage, EvGetwd])"
  using getBasePath_resolution [of "''/base''" example_env "[]"]
    getBasePath_resolution [of "[]" "example_env\<lparr>build_Import := (\<lambda>w path. None)\<rparr>" "[]"]
    getBasePath_resolution [of "[]" "example_env\<lparr>build_Import := (\<lambda>w path. Some \<lparr>Dir = []\<rparr>)\<rparr>" "[]"]
  by (simp add: example_env_def)

text \<open>
  Claim C10.  On every state with a driver \<^verbatim>\<open>Cleanup\<close> calls the driver's \<^verbatim>\<open>Close\<close>
  (which returns nothing) and returns \<^verbatim>\<open>nil\<close>; on no state at all does \<^verbatim>\<open>Cleanup\<close>
  return an error; and every state that \<^verbatim>\<open>New\<close> returns has a driver, so \<^verbatim>\<open>Cleanup\<close>
  on it returns \<^verbatim>\<open>nil\<close>.
\<close>

theorem Cleanup_returns_nil:
  "(\<forall>d. Driver s = Some d \<longrightarrow> Cleanup s w = (Returns None, w @ [EvClose d]))
   \<and> (\<forall>err. fst (Cleanup s w) \<noteq> Returns (Some err))
   \<and> (\<forall>e config w0 w1. New e config w0 = (Returns (Some s, None), w1) \<longrightarrow>
        (\<exists>d. Cleanup s w = (Returns None, w @ [EvClose d])))"
proof (intro conjI allI impI)
  fix d
  assume "Driver s = Some d"
  then show "Cleanup s w = (Returns None, w @ [EvClose d])"
    by (simp add: Cleanup_def)
next
  fix err
  show "fst (Cleanup s w) \<noteq> Returns (Some err)"
    by (simp add: Cleanup_def split: option.splits)
next
  fix e config w0 w1
  assume n: "New e config w0 = (Returns (Some s, None), w1)"
  obtain st0 err0 tr0 where sh: "New e config w0 = (Returns (st0, err0), w0 @ tr0)"
      "\<forall>s. st0 = Some s \<longrightarrow> Driver s \<noteq> None \<and> State.Tables s \<noteq> [] \<and> Config s = config"
    using New_shape [of e config w0] by blast
  from n sh(1) have "st0 = Some s" by simp
  with sh(2) obtain d where "Driver s = Some d" by auto
  then have "Cleanup s w = (Returns None, w @ [EvClose d])"
    by (simp add: Cleanup_def)
  then show "\<exists>d. Cleanup s w = (Returns None, w @ [EvClose d])" ..
qed

text \<open>
  Claim C10 on the example state, after the connection was opened.
\<close>

theorem Cleanup_returns_nil_witness:
  "Cleanup example_State [EvOpen MockDriver] = (Returns None, [EvOpen MockDriver, EvClose MockDriver])"
  using Cleanup_returns_nil [of example_State "[EvOpen MockDriver]"]
  by (simp add: example_State_def)

section \<open>Rendering\<close>

lemma Run_plan_tables_Nil: "Run_plan_tables e s d inc [] = []"
  by (simp add: Run_plan_tables_def)

lemma Run_plan_tables_Cons:
  "Run_plan_tables e s d inc (t # ts) =
     (if IsJoinTable t then Run_plan_tables e s d inc ts
      else EvOutput (tableData e s d t) #
           (if inc then [EvTestOutput (tableData e s d t)] else []) @
           Run_plan_tables e s d inc ts)"
  by (simp add: Run_plan_tables_def)

lemma Run_tables_trace:
  "\<exists>tr. snd (Run_tables e s d inc ts w) = w @ tr \<and>
        prefix tr (Run_plan_tables e s d inc ts) \<and>
        (fst (Run_tables e s d inc ts w) = None \<longrightarrow> tr = Run_plan_tables e s d inc ts)"
proof (induction ts arbitrary: w)
  case Nil
  show ?case by (simp add: Run_plan_tables_Nil)
next
  case (Cons t rest)
  let ?dat = "tableData e s d t"
  let ?w1 = "w @ [EvOutput ?dat]"
  let ?w2 = "w @ [EvOutput ?dat, EvTestOutput ?dat]"
  show ?case
  proof (cases "IsJoinTable t")
    case True
    with Cons.IH [of w] show ?thesis
      by (simp add: Run_plan_tables_Cons)
  next
    case entity: False
    show ?thesis
    proof (cases "generateOutput e w s ?dat")
      case (Some err)
      with entity show ?thesis
        by (simp add: Run_plan_tables_Cons Let_def)
    next
      case out_ok: None
      show ?thesis
      proof (cases inc)
        case no_tests: False
        have step: "Run_tables e s d inc (t # rest) w = Run_tables e s d inc rest ?w1"
          using entity out_ok no_tests by (simp add: Let_def)
        have plan: "Run_plan_tables e s d inc (t # rest) =
            EvOutput ?dat # Run_plan_tables e s d inc rest"
          using entity no_tests by (simp add: Run_plan_tables_Cons)
        from Cons.IH [of ?w1] obtain tr where
          tr: "snd (Run_tables e s d inc rest ?w1) = ?w1 @ tr \<and>
               prefix tr (Run_plan_tables e s d inc rest) \<and>
               (fst (Run_tables e s d inc rest ?w1) = None \<longrightarrow>
                  tr = Run_plan_tables e s d inc rest)" ..
        show ?thesis
        proof (intro exI conjI)
          show "snd (Run_tables e s d inc (t # rest) w) = w @ (EvOutput ?dat # tr)"
            using tr by (simp only: step) simp
          show "prefix (EvOutput ?dat # tr) (Run_plan_tables e s d inc (t # rest))"
            using tr by (simp only: plan) simp
          show "fst (Run_tables e s d inc (t # rest) w) = None \<longrightarrow>
              EvOutput ?dat # tr = Run_plan_tables e s d inc (t # rest)"
            using tr by (simp only: step plan) simp
        qed
      next
        case tests: True
        show ?thesis
        proof (cases "generateTestOutput e ?w1 s ?dat")
          case (Some err)
          with entity out_ok tests show ?thesis
            by (simp add: Run_plan_tables_Cons Let_def)
        next
          case test_ok: None
          have step: "Run_tables e s d inc (t # rest) w = Run_tables e s d inc rest ?w2"
            using entity out_ok tests test_ok by (simp add: Let_def)
          have plan: "Run_plan_tables e s d inc (t # rest) =
              EvOutput ?dat # EvTestOutput ?dat # Run_plan_tables e s d inc rest"
            using entity tests by (simp add: Run_plan_tables_Cons)
          from Cons.IH [of ?w2] obtain tr where
            tr: "snd (Run_tables e s d inc rest ?w2) = ?w2 @ tr \<and>
                 prefix tr (Run_plan_tables e s d inc rest) \<and>
                 (fst (Run_tables e s d inc rest ?w2) = None \<longrightarrow>
                    tr = Run_plan_tables e s d inc rest)" ..
          show ?thesis
          proof (intro exI conjI)
            show "snd (Run_tables e s d inc (t # rest) w) =
                w @ (EvOutput ?dat # EvTestOutput ?dat # tr)"
              using tr by (simp only: step) simp
            show "prefix (EvOutput ?dat # EvTestOutput ?dat # tr)
                (Run_plan_tables e s d inc (t # rest))"
              using tr by (simp only: plan) simp
            show "fst (Run_tables e s d inc (t # rest) w) = None \<longrightarrow>
                EvOutput ?dat # EvTestOutput ?dat # tr = Run_plan_tables e s d inc (t # rest)"
              using tr by (simp only: step plan) simp
          qed
        qed
      qed
    qed
  qed
qed

lemma Run_tests_trace:
  "\<exists>tr. snd (Run_tests e s dat inc w) = w @ tr \<and>
        prefix tr (Run_plan_tests dat inc) \<and>
        (fst (Run_tests e s dat inc w) = None \<longrightarrow> tr = Run_plan_tests dat inc)"
  by (simp add: Run_tests_def Run_plan_tests_def Let_def split: option.splits)

lemma Run_singleton_fails:
  "Driver s = Some d \<Longrightarrow>
   generateSingletonOutput e w s (tableData e s d zero_Table) = Some err \<Longrightarrow>
   Run e s inc w =
     (Returns (Some (errors_Wrap err ''singleton template output'')),
      w @ [EvSingletonOutput (tableData e s d zero_Table)])"
  by (simp add: Run_def)

lemma Run_tests_fail:
  "Driver s = Some d \<Longrightarrow>
   generateSingletonOutput e w s (tableData e s d zero_Table) = None \<Longrightarrow>
   Run_tests e s (tableData e s d zero_Table) inc
     (w @ [EvSingletonOutput (tableData e s d zero_Table)]) = (Some err, w1) \<Longrightarrow>
   Run e s inc w = (Returns (Some err), w1)"
  by (simp add: Run_def)

lemma Run_tables_reached:
  "Driver s = Some d \<Longrightarrow>
   generateSingletonOutput e w s (tableData e s d zero_Table) = None \<Longrightarrow>
   Run_tests e s (tableData e s d zero_Table) inc
     (w @ [EvSingletonOutput (tableData e s d zero_Table)]) = (None, w1) \<Longrightarrow>
   Run_tables e s d inc (State.Tables s) w1 = (r2, w2) \<Longrightarrow>
   Run e s inc w = (Returns r2, w2)"
  by (simp add: Run_def)

lemma Run_trace:
  assumes drv: "Driver s = Some d"
  shows "\<exists>tr r. Run e s inc w = (Returns r, w @ tr) \<and>
        prefix tr (Run_plan e s d inc) \<and>
        (r = None \<longrightarrow> tr = Run_plan e s d inc) \<and>
        (\<exists>tr'. tr = EvSingletonOutput (tableData e s d zero_Table) # tr')"
proof -
  let ?sd = "tableData e s d zero_Table"
  let ?w1 = "w @ [EvSingletonOutput ?sd]"
  let ?tests = "Run_plan_tests ?sd inc"
  let ?tables = "Run_plan_tables e s d inc (State.Tables s)"
  have plan: "Run_plan e s d inc = EvSingletonOutput ?sd # (?tests @ ?tables)"
    by (simp add: Run_plan_def)
  have concl: ?thesis
    if run: "Run e s inc w = (Returns r, w @ (EvSingletonOutput ?sd # tr'))"
      and pre: "prefix (EvSingletonOutput ?sd # tr') (Run_plan e s d inc)"
      and full: "r = None \<longrightarrow> EvSingletonOutput ?sd # tr' = Run_plan e s d inc"
    for r tr'
  proof (intro exI conjI)
    show "Run e s inc w = (Returns r, w @ (EvSingletonOutput ?sd # tr'))" by (rule run)
    show "prefix (EvSingletonOutput ?sd # tr') (Run_plan e s d inc)" by (rule pre)
    show "r = None \<longrightarrow> EvSingletonOutput ?sd # tr' = Run_plan e s d inc" by (rule full)
    show "EvSingletonOutput ?sd # tr' = EvSingletonOutput ?sd # tr'" by (rule refl)
  qed
  show ?thesis
  proof (cases "generateSingletonOutput e w s ?sd")
    case (Some err)
    have "Run e s inc w =
        (Returns (Some (errors_Wrap err ''singleton template output'')), w @ [EvSingletonOutput ?sd])"
      using drv Some by (rule Run_singleton_fails)
    moreover have "prefix [EvSingletonOutput ?sd] (Run_plan e s d inc)"
      by (simp add: plan)
    ultimately show ?thesis
      by (intro concl [of "Some (errors_Wrap err ''singleton template output'')" "[]"]) simp_all
  next
    case single_ok: None
    obtain r1 w1 where rt: "Run_tests e s ?sd inc ?w1 = (r1, w1)"
      by (cases "Run_tests e s ?sd inc ?w1") blast
    from Run_tests_trace [of e s ?sd inc ?w1]
    obtain tr1 where "snd (Run_tests e s ?sd inc ?w1) = ?w1 @ tr1"
        and p1: "prefix tr1 ?tests"
        and f1: "fst (Run_tests e s ?sd inc ?w1) = None \<longrightarrow> tr1 = ?tests"
      by (elim exE conjE)
    then have w1: "w1 = w @ (EvSingletonOutput ?sd # tr1)"
      by (simp add: rt)
    show ?thesis
    proof (cases r1)
      case (Some err)
      have "Run e s inc w = (Returns (Some err), w1)"
        using drv single_ok rt [unfolded Some] by (rule Run_tests_fail)
      then have "Run e s inc w = (Returns (Some err), w @ (EvSingletonOutput ?sd # tr1))"
        by (simp only: w1)
      moreover have "prefix (EvSingletonOutput ?sd # tr1) (Run_plan e s d inc)"
        using prefix_prefix [OF p1, of ?tables] by (simp add: plan)
      ultimately show ?thesis
        by (intro concl [of "Some err" tr1]) simp_all
    next
      case tests_ok: None
      with f1 have t1: "tr1 = ?tests" by (simp add: rt)
      obtain r2 w2 where tb: "Run_tables e s d inc (State.Tables s) w1 = (r2, w2)"
        by (cases "Run_tables e s d inc (State.Tables s) w1") blast
      from Run_tables_trace [of e s d inc "State.Tables s" w1]
      obtain tr2 where "snd (Run_tables e s d inc (State.Tables s) w1) = w1 @ tr2"
          and p2: "prefix tr2 ?tables"
          and f2: "fst (Run_tables e s d inc (State.Tables s) w1) = None \<longrightarrow> tr2 = ?tables"
        by (elim exE conjE)
      then have "w2 = w1 @ tr2"
        by (simp add: tb)
      then have w2: "w2 = w @ (EvSingletonOutput ?sd # (?tests @ tr2))"
        by (simp add: w1 t1)
      have "Run e s inc w = (Returns r2, w2)"
        using drv single_ok rt [unfolded tests_ok] tb by (rule Run_tables_reached)
      then have "Run e s inc w = (Returns r2, w @ (EvSingletonOutput ?sd # (?tests @ tr2)))"
        by (simp only: w2)
      moreover have "prefix (EvSingletonOutput ?sd # (?tests @ tr2)) (Run_plan e s d inc)"
        using p2 by (simp add: plan)
      moreover have "r2 = None \<longrightarrow> EvSingletonOutput ?sd # (?tests @ tr2) = Run_plan e s d inc"
        using f2 by (simp add: plan tb)
      ultimately show ?thesis
        by (rule concl)
    qed
  qed
qed


lemma Run_plan_tables_set:
  "set (Run_plan_tables e s d inc ts) =
     (\<lambda>t. EvOutput (tableData e s d t)) ` {t \<in> set ts. \<not> IsJoinTable t} \<union>
     (if inc then (\<lambda>t. EvTestOutput (tableData e s d t)) ` {t \<in> set ts. \<not> IsJoinTable t}
      else {})"
  by (induction ts) (auto simp: Run_plan_tables_Nil Run_plan_tables_Cons)

lemma Run_plan_set:
  "set (Run_plan e s d inc) =
     {EvSingletonOutput (tableData e s d zero_Table)} \<union>
     (if inc then {EvTestMainOutput (tableData e s d zero_Table),
                   EvSingletonTestOutput (tableData e s d zero_Table)} else {}) \<union>
     (\<lambda>t. EvOutput (tableData e s d t)) ` {t \<in> set (State.Tables s). \<not> IsJoinTable t} \<union>
     (if inc then (\<lambda>t. EvTestOutput (tableData e s d t)) `
                    {t \<in> set (State.Tables s). \<not> IsJoinTable t}
      else {})"
  by (auto simp: Run_plan_def Run_plan_tests_def Run_plan_tables_set)

lemma Run_plan_Output:
  "EvOutput dat \<in> set (Run_plan e s d inc) \<Longrightarrow>
     \<exists>t \<in> set (State.Tables s). \<not> IsJoinTable t \<and> dat = tableData e s d t"
  by (auto simp: Run_plan_set split: if_splits)

lemma Run_plan_TestOutput:
  "EvTestOutput dat \<in> set (Run_plan e s d inc) \<Longrightarrow>
     inc \<and> (\<exists>t \<in> set (State.Tables s). \<not> IsJoinTable t \<and> dat = tableData e s d t)"
  by (auto simp: Run_plan_set split: if_splits)

lemma Run_plan_SingletonOutput:
  "EvSingletonOutput dat \<in> set (Run_plan e s d inc) \<Longrightarrow> dat = tableData e s d zero_Table"
  by (auto simp: Run_plan_set split: if_splits)

lemma Run_plan_SingletonTestOutput:
  "EvSingletonTestOutput dat \<in> set (Run_plan e s d inc) \<Longrightarrow>
     inc \<and> dat = tableData e s d zero_Table"
  by (auto simp: Run_plan_set split: if_splits)

lemma Run_plan_TestMainOutput:
  "EvTestMainOutput dat \<in> set (Run_plan e s d inc) \<Longrightarrow>
     inc \<and> dat = tableData e s d zero_Table"
  by (auto simp: Run_plan_set split: if_splits)

lemma tableData_Table: "Table (tableData e s d t) = t"
  by (simp add: tableData_def)

lemma tableData_Tables: "templateData.Tables (tableData e s d t) = State.Tables s"
  by (simp add: tableData_def)


text \<open>
  Claim C5.  On a state without a driver \<^verbatim>\<open>Run\<close> panics before it renders anything.
  On a state with a driver \<^verbatim>\<open>Run\<close> returns, and what it has rendered by then is an
  initial part of the plan (all of it when \<^verbatim>\<open>Run\<close> returns no error), starting with the
  singleton templates.  Hence: every per-table and per-table-test rendering is for a
  table of \<^verbatim>\<open>s.Tables\<close> that is not a join table, so a join table is never rendered;
  the data of every singleton, singleton-test and test-harness rendering carries all of
  \<^verbatim>\<open>s.Tables\<close>, join tables included; without \<^verbatim>\<open>includeTests\<close> no test harness, no
  singleton test and no per-table test is rendered; and when \<^verbatim>\<open>Run\<close> returns no error,
  every table that is not a join table was rendered, and with \<^verbatim>\<open>includeTests\<close> so were
  its tests, the test harness and the singleton tests.
\<close>

theorem Run_rendering:
  "(Driver s = None \<longrightarrow> Run e s inc w = (Panics, w))
   \<and> (\<forall>d. Driver s = Some d \<longrightarrow>
       (\<exists>tr r. Run e s inc w = (Returns r, w @ tr)
          \<and> prefix tr (Run_plan e s d inc)
          \<and> (r = None \<longrightarrow> tr = Run_plan e s d inc)
          \<and> (\<exists>tr'. tr = EvSingletonOutput (tableData e s d zero_Table) # tr')
          \<and> (\<forall>dat. EvOutput dat \<in> set tr \<or> EvTestOutput dat \<in> set tr \<longrightarrow>
                 \<not> IsJoinTable (Table dat) \<and> Table dat \<in> set (State.Tables s))
          \<and> (\<forall>dat. EvSingletonOutput dat \<in> set tr \<or> EvSingletonTestOutput dat \<in> set tr \<or>
                    EvTestMainOutput dat \<in> set tr \<longrightarrow>
                 templateData.Tables dat = State.Tables s)
          \<and> (\<not> inc \<longrightarrow>
                (\<forall>dat. EvTestMainOutput dat \<notin> set tr \<and> EvSingletonTestOutput dat \<notin> set tr \<and>
                       EvTestOutput dat \<notin> set tr))
          \<and> (r = None \<longrightarrow>
                (\<forall>t \<in> set (State.Tables s). \<not> IsJoinTable t \<longrightarrow>
                    EvOutput (tableData e s d t) \<in> set tr \<and>
                    (inc \<longrightarrow> EvTestOutput (tableData e s d t) \<in> set tr)) \<and>
                (inc \<longrightarrow> EvTestMainOutput (tableData e s d zero_Table) \<in> set tr \<and>
                         EvSingletonTestOutput (tableData e s d zero_Table) \<in> set tr))))"
proof (intro conjI allI impI)
  assume "Driver s = None"
  then show "Run e s inc w = (Panics, w)"
    by (simp add: Run_def)
next
  fix d
  assume drv: "Driver s = Some d"
  from Run_trace [OF drv, of e inc w]
  obtain tr where "\<exists>r. Run e s inc w = (Returns r, w @ tr) \<and>
      prefix tr (Run_plan e s d inc) \<and>
      (r = None \<longrightarrow> tr = Run_plan e s d inc) \<and>
      (\<exists>tr'. tr = EvSingletonOutput (tableData e s d zero_Table) # tr')" ..
  then obtain r where tr: "Run e s inc w = (Returns r, w @ tr) \<and>
      prefix tr (Run_plan e s d inc) \<and>
      (r = None \<longrightarrow> tr = Run_plan e s d inc) \<and>
      (\<exists>tr'. tr = EvSingletonOutput (tableData e s d zero_Table) # tr')" ..
  have run: "Run e s inc w = (Returns r, w @ tr)"
    using tr by (rule conjunct1)
  have pre: "prefix tr (Run_plan e s d inc)"
    using tr by (rule conjunct1 [OF conjunct2])
  have full: "r = None \<longrightarrow> tr = Run_plan e s d inc"
    using tr by (rule conjunct1 [OF conjunct2 [OF conjunct2]])
  have first: "\<exists>tr'. tr = EvSingletonOutput (tableData e s d zero_Table) # tr'"
    using tr by (rule conjunct2 [OF conjunct2 [OF conjunct2]])
  have sub: "ev \<in> set (Run_plan e s d inc)" if "ev \<in> set tr" for ev
    using set_mono_prefix [OF pre] that by (rule subsetD)
  have tables: "\<not> IsJoinTable (Table dat) \<and> Table dat \<in> set (State.Tables s)"
    if "EvOutput dat \<in> set tr \<or> EvTestOutput dat \<in> set tr" for dat
  proof -
    from that have "\<exists>t \<in> set (State.Tables s). \<not> IsJoinTable t \<and> dat = tableData e s d t"
    proof
      assume "EvOutput dat \<in> set tr"
      then have "EvOutput dat \<in> set (Run_plan e s d inc)" by (rule sub)
      then show ?thesis by (rule Run_plan_Output)
    next
      assume "EvTestOutput dat \<in> set tr"
      then have "EvTestOutput dat \<in> set (Run_plan e s d inc)" by (rule sub)
      from Run_plan_TestOutput [OF this] show ?thesis by (rule conjunct2)
    qed
    then obtain t where "t \<in> set (State.Tables s)" "\<not> IsJoinTable t" "dat = tableData e s d t"
      by (elim bexE conjE)
    then show ?thesis
      by (simp add: tableData_Table)
  qed
  have singles: "templateData.Tables dat = State.Tables s"
    if "EvSingletonOutput dat \<in> set tr \<or> EvSingletonTestOutput dat \<in> set tr \<or>
        EvTestMainOutput dat \<in> set tr" for dat
  proof -
    from that have "dat = tableData e s d zero_Table"
    proof (elim disjE)
      assume "EvSingletonOutput dat \<in> set tr"
      then have "EvSingletonOutput dat \<in> set (Run_plan e s d inc)" by (rule sub)
      then show ?thesis by (rule Run_plan_SingletonOutput)
    next
      assume "EvSingletonTestOutput dat \<in> set tr"
      then have "EvSingletonTestOutput dat \<in> set (Run_plan e s d inc)" by (rule sub)
      from Run_plan_SingletonTestOutput [OF this] show ?thesis by (rule conjunct2)
    next
      assume "EvTestMainOutput dat \<in> set tr"
      then have "EvTestMainOutput dat \<in> set (Run_plan e s d inc)" by (rule sub)
      from Run_plan_TestMainOutput [OF this] show ?thesis by (rule conjunct2)
    qed
    then show ?thesis
      by (simp add: tableData_Tables)
  qed
  have no_tests: "EvTestMainOutput dat \<notin> set tr \<and> EvSingletonTestOutput dat \<notin> set tr \<and>
      EvTestOutput dat \<notin> set tr" if "\<not> inc" for dat
  proof (intro conjI notI)
    assume "EvTestMainOutput dat \<in> set tr"
    then have "EvTestMainOutput dat \<in> set (Run_plan e s d inc)" by (rule sub)
    from Run_plan_TestMainOutput [OF this] that show False by simp
  next
    assume "EvSingletonTestOutput dat \<in> set tr"
    then have "EvSingletonTestOutput dat \<in> set (Run_plan e s d inc)" by (rule sub)
    from Run_plan_SingletonTestOutput [OF this] that show False by simp
  next
    assume "EvTestOutput dat \<in> set tr"
    then have "EvTestOutput dat \<in> set (Run_plan e s d inc)" by (rule sub)
    from Run_plan_TestOutput [OF this] that show False by simp
  qed
  have all: "(\<forall>t \<in> set (State.Tables s). \<not> IsJoinTable t \<longrightarrow>
                EvOutput (tableData e s d t) \<in> set tr \<and>
                (inc \<longrightarrow> EvTestOutput (tableData e s d t) \<in> set tr)) \<and>
             (inc \<longrightarrow> EvTestMainOutput (tableData e s d zero_Table) \<in> set tr \<and>
                      EvSingletonTestOutput (tableData e s d zero_Table) \<in> set tr)"
    if "r = None"
  proof -
    from that full have "set tr = set (Run_plan e s d inc)" by simp
    then show ?thesis
      by (simp only: Run_plan_set) auto
  qed
  show "\<exists>tr r. Run e s inc w = (Returns r, w @ tr)
          \<and> prefix tr (Run_plan e s d inc)
          \<and> (r = None \<longrightarrow> tr = Run_plan e s d inc)
          \<and> (\<exists>tr'. tr = EvSingletonOutput (tableData e s d zero_Table) # tr')
          \<and> (\<forall>dat. EvOutput dat \<in> set tr \<or> EvTestOutput dat \<in> set tr \<longrightarrow>
                 \<not> IsJoinTable (Table dat) \<and> Table dat \<in> set (State.Tables s))
          \<and> (\<forall>dat. EvSingletonOutput dat \<in> set tr \<or> EvSingletonTestOutput dat \<in> set tr \<or>
                    EvTestMainOutput dat \<in> set tr \<longrightarrow>
                 templateData.Tables dat = State.Tables s)
          \<and> (\<not> inc \<longrightarrow>
                (\<forall>dat. EvTestMainOutput dat \<notin> set tr \<and> EvSingletonTestOutput dat \<notin> set tr \<and>
                       EvTestOutput dat \<notin> set tr))
          \<and> (r = None \<longrightarrow>
                (\<forall>t \<in> set (State.Tables s). \<not> IsJoinTable t \<longrightarrow>
                    EvOutput (tableData e s d t) \<in> set tr \<and>
                    (inc \<longrightarrow> EvTestOutput (tableData e s d t) \<in> set tr)) \<and>
                (inc \<longrightarrow> EvTestMainOutput (tableData e s d zero_Table) \<in> set tr \<and>
                         EvSingletonTestOutput (tableData e s d zero_Table) \<in> set tr))"
  proof (rule exI [of _ tr], rule exI [of _ r], intro conjI)
    show "Run e s inc w = (Returns r, w @ tr)" by (rule run)
    show "prefix tr (Run_plan e s d inc)" by (rule pre)
    show "r = None \<longrightarrow> tr = Run_plan e s d inc" by (rule full)
    show "\<exists>tr'. tr = EvSingletonOutput (tableData e s d zero_Table) # tr'" by (rule first)
    show "\<forall>dat. EvOutput dat \<in> set tr \<or> EvTestOutput dat \<in> set tr \<longrightarrow>
        \<not> IsJoinTable (Table dat) \<and> Table dat \<in> set (State.Tables s)"
      by (intro allI impI) (rule tables)
    show "\<forall>dat. EvSingletonOutput dat \<in> set tr \<or> EvSingletonTestOutput dat \<in> set tr \<or>
        EvTestMainOutput dat \<in> set tr \<longrightarrow> templateData.Tables dat = State.Tables s"
      by (intro allI impI) (rule singles)
    show "\<not> inc \<longrightarrow>
        (\<forall>dat. EvTestMainOutput dat \<notin> set tr \<and> EvSingletonTestOutput dat \<notin> set tr \<and>
               EvTestOutput dat \<notin> set tr)"
      by (intro allI impI) (rule no_tests)
    show "r = None \<longrightarrow>
        (\<forall>t \<in> set (State.Tables s). \<not> IsJoinTable t \<longrightarrow>
            EvOutput (tableData e s d t) \<in> set tr \<and>
            (inc \<longrightarrow> EvTestOutput (tableData e s d t) \<in> set tr)) \<and>
        (inc \<longrightarrow> EvTestMainOutput (tableData e s d zero_Table) \<in> set tr \<and>
                 EvSingletonTestOutput (tableData e s d zero_Table) \<in> set tr)"
      by (intro impI) (rule all)
  qed
qed


text \<open>
  Claim C5 on the example state, whose second table is a join table, with and without
  tests: the join table is in the data of the singleton templates and has no rendering
  of its own.
\<close>

theorem Run_rendering_witness:
  "Run example_env example_State True [] =
     (Returns None,
      [EvSingletonOutput (tableData example_env example_State MockDriver zero_Table),
       EvTestMainOutput (tableData example_env example_State MockDriver zero_Table),
       EvSingletonTestOutput (tableData example_env example_State MockDriver zero_Table),
       EvOutput (tableData example_env example_State MockDriver (example_Tables ! 0)),
       EvTestOutput (tableData example_env example_State MockDriver (example_Tables ! 0)),
       EvOutput (tableData example_env example_State MockDriver (example_Tables ! 2)),
       EvTestOutput (tableData example_env example_State MockDriver (example_Tables ! 2))])
   \<and> Run example_env example_State False [] =
     (Returns None,
      [EvSingletonOutput (tableData example_env example_State MockDriver zero_Table),
       EvOutput (tableData example_env example_State MockDriver (example_Tables ! 0)),
       EvOutput (tableData example_env example_State MockDriver (example_Tables ! 2))])
   \<and> IsJoinTable (example_Tables ! 1)
   \<and> templateData.Tables (tableData example_env example_State MockDriver zero_Table) =
       example_Tables"
  using Run_rendering [of example_State example_env True "[]"]
    Run_rendering [of example_State example_env False "[]"]
  by (simp add: Run_def Run_tests_def Let_def tableData_def example_State_def example_env_def
      example_Tables_def new_State_def)

end
